theory Spec2Isabelle
  imports Main
begin

section \<open>The TypeScript compiler objects that parseCommands reads\<close>

text \<open>
  \<^verbatim>\<open>ComponentCommandParser.ts\<close> walks objects of the TypeScript compiler API. Only the
  parts that \<^verbatim>\<open>parseCommands\<close> touches are represented.

  A syntax node carries its source text (\<^verbatim>\<open>getText()\<close>) and its kind. Three kinds are
  told apart by the code: \<^verbatim>\<open>TypeReference\<close> (tested by \<^verbatim>\<open>ts.isTypeReferenceNode\<close>, with
  the text of its \<^verbatim>\<open>typeName\<close> and its optional \<^verbatim>\<open>typeArguments\<close>), \<^verbatim>\<open>StringLiteral\<close>
  (tested by \<^verbatim>\<open>ts.isStringLiteral\<close>) and \<^verbatim>\<open>LiteralType\<close>, the node the TypeScript parser
  builds for a literal written in type position: its \<^verbatim>\<open>literal\<close> child is the
  \<^verbatim>\<open>StringLiteral\<close>, the node itself has kind \<^verbatim>\<open>LiteralType\<close>. Every other kind is
  \<open>OtherNode\<close>.
\<close>

datatype node =
    TypeReference string string "node list option"
      \<comment> \<open>\<^verbatim>\<open>getText()\<close>, \<^verbatim>\<open>typeName.getText()\<close>, \<^verbatim>\<open>typeArguments\<close>\<close>
  | LiteralType string node
      \<comment> \<open>\<^verbatim>\<open>getText()\<close>, \<^verbatim>\<open>literal\<close>\<close>
  | StringLiteral string
      \<comment> \<open>\<^verbatim>\<open>getText()\<close>\<close>
  | OtherNode string
      \<comment> \<open>\<^verbatim>\<open>getText()\<close>\<close>

fun getText :: "node \<Rightarrow> string" where
  "getText (TypeReference t _ _) = t"
| "getText (LiteralType t _) = t"
| "getText (StringLiteral t) = t"
| "getText (OtherNode t) = t"

text \<open>The kind tests of the compiler API compare the node's own \<^verbatim>\<open>kind\<close> field.\<close>

fun isTypeReferenceNode :: "node \<Rightarrow> bool" where
  "isTypeReferenceNode (TypeReference _ _ _) = True"
| "isTypeReferenceNode _ = False"

fun isStringLiteral :: "node \<Rightarrow> bool" where
  "isStringLiteral (StringLiteral _) = True"
| "isStringLiteral _ = False"

text \<open>
  A parameter declaration: the text of its name and its type annotation, which is
  absent (\<^verbatim>\<open>undefined\<close>) when the parameter is written without one.
\<close>

record ParameterDeclaration =
  param_name :: string
  param_type :: "node option"

text \<open>
  The declarations a symbol can point to. \<^verbatim>\<open>MethodSignature\<close> and
  \<^verbatim>\<open>CallSignatureDeclaration\<close> carry \<^verbatim>\<open>typeParameters\<close>, \<^verbatim>\<open>parameters\<close>, the return type
  annotation \<^verbatim>\<open>type\<close> and \<^verbatim>\<open>questionToken\<close>; \<^verbatim>\<open>PropertySignature\<close> carries \<^verbatim>\<open>type\<close> and
  \<^verbatim>\<open>questionToken\<close>. Type parameters are kept by name; of the question token only its
  presence is read.
\<close>

datatype Declaration =
    MethodSignature "string list option" "ParameterDeclaration list" "node option" "unit option"
  | CallSignatureDeclaration "string list option" "ParameterDeclaration list" "node option" "unit option"
  | PropertySignature "node option" "unit option"
  | Parameter ParameterDeclaration
  | OtherDeclaration

fun questionToken :: "Declaration \<Rightarrow> unit option" where
  "questionToken (MethodSignature _ _ _ q) = q"
| "questionToken (CallSignatureDeclaration _ _ _ q) = q"
| "questionToken (PropertySignature _ q) = q"
| "questionToken _ = None"

text \<open>
  A symbol: its name and its declarations. The compiler leaves \<^verbatim>\<open>declarations\<close> undefined
  for a symbol that has no declaration site (a property of a mapped type over a literal
  key, a parameter of a signature it synthesizes for a union of function types), so the
  array is optional.
\<close>

record Symbol =
  symbol_name :: string
  declarations :: "Declaration list option"

text \<open>A call signature of a semantic type; \<open>'ty\<close> is the type of semantic types.\<close>

record 'ty Signature =
  typeParameters :: "string list option"
  getReturnType :: 'ty
  parameters :: "Symbol list"

text \<open>
  The operations of the compiler and of the module \<^verbatim>\<open>./TypeChecker\<close> that the code calls.
  They are not part of the file under verification and are taken as parameters:
  \<^verbatim>\<open>typeChecker.getTypeFromTypeNode\<close> (called with \<^verbatim>\<open>decl.type\<close> and \<^verbatim>\<open>param.type\<close>, which may
  be absent; the code passes the value on without reading it, and the compiler answers an
  absent node with a type of its own, so the parameter is a function on \<open>node option\<close>),
  \<^verbatim>\<open>type.getProperty\<close>, \<^verbatim>\<open>type.getCallSignatures\<close> (the code tests its result against
  \<^verbatim>\<open>undefined\<close>), and the predicates \<^verbatim>\<open>isString\<close>, \<^verbatim>\<open>isBoolean\<close>, \<^verbatim>\<open>isInt32\<close>, \<^verbatim>\<open>isVoid\<close>.
\<close>

record 'ty TypeChecker =
  getTypeFromTypeNode :: "node option \<Rightarrow> 'ty"
  getProperty :: "'ty \<Rightarrow> string \<Rightarrow> Symbol option"
  getCallSignatures :: "'ty \<Rightarrow> 'ty Signature list option"
  isString :: "'ty \<Rightarrow> bool"
  isBoolean :: "'ty \<Rightarrow> bool"
  isInt32 :: "'ty \<Rightarrow> bool"
  isVoid :: "'ty \<Rightarrow> bool"

text \<open>\<^verbatim>\<open>ExportCommandInfo\<close>: the program (its type checker), the type node, the command names.\<close>

record 'ty ExportCommandInfo =
  program :: "'ty TypeChecker"
  typeNode :: node
  supportedCommands :: "string list"

section \<open>The schema that is produced\<close>

datatype CommandsTypeAnnotation =
  StringTypeAnnotation | BooleanTypeAnnotation | Int32TypeAnnotation

record CommandsFunctionTypeParamAnnotation =
  par_name :: string
  par_typeAnnotation :: CommandsTypeAnnotation

datatype CommandsFunctionTypeAnnotation =
  FunctionTypeAnnotation "CommandsFunctionTypeParamAnnotation list"

fun params :: "CommandsFunctionTypeAnnotation \<Rightarrow> CommandsFunctionTypeParamAnnotation list" where
  "params (FunctionTypeAnnotation ps) = ps"

record CommandTypeShape =
  cmd_name :: string
  cmd_optional :: bool
  cmd_typeAnnotation :: CommandsFunctionTypeAnnotation

section \<open>What a call can raise\<close>

text \<open>
  \<open>Error m\<close> is \<^verbatim>\<open>throw new Error(m)\<close>. \<open>TypeError\<close> is the fault of the JavaScript runtime
  when a property of \<^verbatim>\<open>undefined\<close> is read.
\<close>

datatype exn = Error string | TypeError

section \<open>parseCommands\<close>

text \<open>
  Lines 39--45: the parameter symbols of a call signature are mapped to their
  declarations; the first symbol that does not have exactly one declaration, a
  parameter, raises. Line 40 reads \<^verbatim>\<open>parameterSymbol.declarations.length\<close>, which faults
  when the symbol has no declarations array.
\<close>

fun mapParameterSymbols :: "string \<Rightarrow> string \<Rightarrow> Symbol list \<Rightarrow> exn + ParameterDeclaration list" where
  "mapParameterSymbols commandName typeText [] = Inr []"
| "mapParameterSymbols commandName typeText (parameterSymbol # rest) =
     (case declarations parameterSymbol of
        None \<Rightarrow> Inl TypeError
      | Some [Parameter p] \<Rightarrow>
          (case mapParameterSymbols commandName typeText rest of
             Inl e \<Rightarrow> Inl e
           | Inr ps \<Rightarrow> Inr (p # ps))
      | Some _ \<Rightarrow>
          Inl (Error (''Parameter '' @ symbol_name parameterSymbol @ '' in command '' @ commandName
                 @ '' in type '' @ typeText @ '' should be a parameter.'')))"

text \<open>
  Lines 17--48: \<open>funcDecl\<close>, \<open>funcReturnType\<close> and \<open>funcParameters\<close> are assigned together or not
  at all; \<open>Inr None\<close> is the state in which \<open>funcDecl\<close> is still \<^verbatim>\<open>undefined\<close> at line 49.
  Line 21 reads \<^verbatim>\<open>methodSymbol.declarations.length\<close>, which faults when the symbol has no
  declarations array.
\<close>

definition resolveDeclaration ::
  "'ty TypeChecker \<Rightarrow> string \<Rightarrow> string \<Rightarrow> Symbol
     \<Rightarrow> exn + (Declaration \<times> 'ty \<times> ParameterDeclaration list) option" where
  "resolveDeclaration typeChecker commandName typeText methodSymbol =
     (case declarations methodSymbol of
        None \<Rightarrow> Inl TypeError
      | Some [decl] \<Rightarrow>
          (case decl of
             MethodSignature tps ps ty q \<Rightarrow>
               (if tps \<noteq> None \<and> length (the tps) \<noteq> 0
                then Inl (Error (''Command '' @ commandName @ '' in type '' @ typeText
                                  @ '' should not be generic.''))
                else Inr (Some (decl, getTypeFromTypeNode typeChecker ty, ps)))
           | CallSignatureDeclaration tps ps ty q \<Rightarrow>
               (if tps \<noteq> None \<and> length (the tps) \<noteq> 0
                then Inl (Error (''Command '' @ commandName @ '' in type '' @ typeText
                                  @ '' should not be generic.''))
                else Inr (Some (decl, getTypeFromTypeNode typeChecker ty, ps)))
           | PropertySignature ty q \<Rightarrow>
               (let propType = getTypeFromTypeNode typeChecker ty in
                case getCallSignatures typeChecker propType of
                  Some [signature] \<Rightarrow>
                    (if typeParameters signature \<noteq> None \<and> length (the (typeParameters signature)) \<noteq> 0
                     then Inl (Error (''Command '' @ commandName @ '' in type '' @ typeText
                                       @ '' should not be generic.''))
                     else (case mapParameterSymbols commandName typeText (parameters signature) of
                             Inl e \<Rightarrow> Inl e
                           | Inr ps \<Rightarrow> Inr (Some (decl, getReturnType signature, ps))))
                | _ \<Rightarrow> Inr None)
           | _ \<Rightarrow> Inr None)
      | Some _ \<Rightarrow> Inr None)"

text \<open>
  Lines 75--95, the function mapped over \<open>funcParameters.slice(1)\<close>. When no branch
  assigns \<open>typeAnnotation\<close>, the message of line 88 reads \<^verbatim>\<open>param.type.getText()\<close>, which
  faults on an absent annotation.
\<close>

definition paramAnnotation ::
  "'ty TypeChecker \<Rightarrow> string \<Rightarrow> string \<Rightarrow> ParameterDeclaration
     \<Rightarrow> exn + CommandsFunctionTypeParamAnnotation" where
  "paramAnnotation typeChecker commandName typeText param =
     (let paramType = getTypeFromTypeNode typeChecker (param_type param);
          typeAnnotation =
            (if isString typeChecker paramType then Some StringTypeAnnotation
             else if isBoolean typeChecker paramType then Some BooleanTypeAnnotation
             else if isInt32 typeChecker paramType then Some Int32TypeAnnotation
             else None)
      in case typeAnnotation of
           None \<Rightarrow>
             (case param_type param of
                None \<Rightarrow> Inl TypeError
              | Some t \<Rightarrow>
                  Inl (Error (''Parameter '' @ param_name param @ '' in command '' @ commandName
                         @ '' in type '' @ typeText
                         @ '' should be either string, boolean or Int32, instead of ''
                         @ getText t @ ''.'')))
         | Some a \<Rightarrow> Inr \<lparr> par_name = param_name param, par_typeAnnotation = a \<rparr>)"

text \<open>\<^verbatim>\<open>Array.prototype.map\<close> with a callback that may raise: the first failure wins.\<close>

fun mapParams ::
  "'ty TypeChecker \<Rightarrow> string \<Rightarrow> string \<Rightarrow> ParameterDeclaration list
     \<Rightarrow> exn + CommandsFunctionTypeParamAnnotation list" where
  "mapParams typeChecker commandName typeText [] = Inr []"
| "mapParams typeChecker commandName typeText (param # rest) =
     (case paramAnnotation typeChecker commandName typeText param of
        Inl e \<Rightarrow> Inl e
      | Inr a \<Rightarrow>
          (case mapParams typeChecker commandName typeText rest of
             Inl e \<Rightarrow> Inl e
           | Inr as \<Rightarrow> Inr (a # as)))"

text \<open>
  Lines 61--66, the condition under which the first parameter is refused.
  \<^verbatim>\<open>ts.isTypeReferenceNode(undefined)\<close> reads \<^verbatim>\<open>kind\<close> of \<^verbatim>\<open>undefined\<close>; that case is handled
  by the caller.
\<close>

definition refusedViewRefType :: "node \<Rightarrow> bool" where
  "refusedViewRefType viewRefType =
     (\<not> isTypeReferenceNode viewRefType \<or>
      (case viewRefType of
         TypeReference _ typeNameText typeArguments \<Rightarrow>
           typeNameText \<noteq> ''React.Ref'' \<and>
           (case typeArguments of
              Some [argument] \<Rightarrow> isStringLiteral argument
            | _ \<Rightarrow> False)
       | _ \<Rightarrow> False))"

text \<open>Lines 12--97: the body of the loop, for one command name.\<close>

definition parseCommand ::
  "'ty ExportCommandInfo \<Rightarrow> 'ty \<Rightarrow> string \<Rightarrow> exn + CommandTypeShape" where
  "parseCommand info mappedType commandName =
     (let typeChecker = program info; typeText = getText (typeNode info) in
      case getProperty typeChecker mappedType commandName of
        None \<Rightarrow>
          Inl (Error (''Unable to find command '' @ commandName @ '' in type '' @ typeText @ ''.''))
      | Some methodSymbol \<Rightarrow>
          (case resolveDeclaration typeChecker commandName typeText methodSymbol of
             Inl e \<Rightarrow> Inl e
           | Inr None \<Rightarrow>
               Inl (Error (''Command '' @ commandName @ '' in type '' @ typeText
                            @ '' should be a function.''))
           | Inr (Some (funcDecl, funcReturnType, funcParameters)) \<Rightarrow>
               (if \<not> isVoid typeChecker funcReturnType
                then Inl (Error (''Command '' @ commandName @ '' in type '' @ typeText
                                  @ '' should return void.''))
                else (case funcParameters of
                        [] \<Rightarrow>
                          Inl (Error (''Command '' @ commandName @ '' in type '' @ typeText
                                       @ '' should have at least one parameter.''))
                      | first # others \<Rightarrow>
                          (case param_type first of
                             None \<Rightarrow> Inl TypeError
                           | Some viewRefType \<Rightarrow>
                               (if refusedViewRefType viewRefType
                                then Inl (Error (''The first parameter in command '' @ commandName
                                                  @ '' in type '' @ typeText
                                                  @ '' should be React.Ref<'' @ [CHR 0x27]
                                                  @ ''NAME'' @ [CHR 0x27] @ ''>.''))
                                else (case mapParams typeChecker commandName typeText others of
                                        Inl e \<Rightarrow> Inl e
                                      | Inr ps \<Rightarrow>
                                          Inr \<lparr> cmd_name = commandName,
                                                cmd_optional = (questionToken funcDecl \<noteq> None),
                                                cmd_typeAnnotation = FunctionTypeAnnotation ps \<rparr>)))))))"

text \<open>
  Lines 10--11 and 98--99: the loop over \<open>info.supportedCommands\<close>; \<open>commands\<close> is the array
  that \<^verbatim>\<open>push\<close> extends. A raised exception leaves the loop and the function.
\<close>

fun parseCommandsLoop ::
  "'ty ExportCommandInfo \<Rightarrow> 'ty \<Rightarrow> string list \<Rightarrow> CommandTypeShape list
     \<Rightarrow> exn + CommandTypeShape list" where
  "parseCommandsLoop info mappedType [] commands = Inr commands"
| "parseCommandsLoop info mappedType (commandName # rest) commands =
     (case parseCommand info mappedType commandName of
        Inl e \<Rightarrow> Inl e
      | Inr shape \<Rightarrow> parseCommandsLoop info mappedType rest (commands @ [shape]))"

text \<open>Lines 7--8: the semantic type of \<open>info.typeNode\<close>, computed once.\<close>

definition mappedType :: "'ty ExportCommandInfo \<Rightarrow> 'ty" where
  "mappedType info =
     (let typeChecker = program info in getTypeFromTypeNode typeChecker (Some (typeNode info)))"

definition parseCommands :: "'ty ExportCommandInfo \<Rightarrow> exn + CommandTypeShape list" where
  "parseCommands info = parseCommandsLoop info (mappedType info) (supportedCommands info) []"

section \<open>Notions used in the statements\<close>

text \<open>
  A parameter is classified when its resolved type falls into one of the three categories
  tested at lines 79--85.
\<close>

definition classified :: "'ty TypeChecker \<Rightarrow> ParameterDeclaration \<Rightarrow> bool" where
  "classified typeChecker param =
     (let paramType = getTypeFromTypeNode typeChecker (param_type param) in
      isString typeChecker paramType \<or> isBoolean typeChecker paramType \<or> isInt32 typeChecker paramType)"

text \<open>The \<^verbatim>\<open>type\<close> annotation of a declaration, when it has that field.\<close>

fun declaredType :: "Declaration \<Rightarrow> node option" where
  "declaredType (MethodSignature _ _ ty _) = ty"
| "declaredType (CallSignatureDeclaration _ _ ty _) = ty"
| "declaredType (PropertySignature ty _) = ty"
| "declaredType (Parameter p) = param_type p"
| "declaredType OtherDeclaration = None"

text \<open>
  The precondition of explicit annotations, as the specification words it: for every
  requested command whose member resolves to a declaration, that declaration carries its
  type annotation and every parameter carries one.
\<close>

definition explicitlyAnnotated :: "'ty ExportCommandInfo \<Rightarrow> bool" where
  "explicitlyAnnotated info =
     list_all
       (\<lambda>commandName.
          case getProperty (program info) (mappedType info) commandName of
            None \<Rightarrow> True
          | Some methodSymbol \<Rightarrow>
              (case resolveDeclaration (program info) commandName (getText (typeNode info))
                      methodSymbol of
                 Inr (Some (funcDecl, funcReturnType, funcParameters)) \<Rightarrow>
                   declaredType funcDecl \<noteq> None \<and>
                   list_all (\<lambda>p. param_type p \<noteq> None) funcParameters
               | _ \<Rightarrow> True))
       (supportedCommands info)"

text \<open>The same for the parameters alone, whatever the return type annotation.\<close>

definition parametersAnnotated :: "'ty ExportCommandInfo \<Rightarrow> bool" where
  "parametersAnnotated info =
     list_all
       (\<lambda>commandName.
          case getProperty (program info) (mappedType info) commandName of
            None \<Rightarrow> True
          | Some methodSymbol \<Rightarrow>
              (case resolveDeclaration (program info) commandName (getText (typeNode info))
                      methodSymbol of
                 Inr (Some (funcDecl, funcReturnType, funcParameters)) \<Rightarrow>
                   list_all (\<lambda>p. param_type p \<noteq> None) funcParameters
               | _ \<Rightarrow> True))
       (supportedCommands info)"

text \<open>
  Every symbol whose declarations the code reads has a declarations array: the member
  symbol of each requested command and, for a property with exactly one call signature,
  the parameter symbols of that signature.
\<close>

definition symbolDeclarationsDefined :: "'ty TypeChecker \<Rightarrow> Symbol \<Rightarrow> bool" where
  "symbolDeclarationsDefined typeChecker methodSymbol =
     (case declarations methodSymbol of
        None \<Rightarrow> False
      | Some [PropertySignature ty q] \<Rightarrow>
          (case getCallSignatures typeChecker (getTypeFromTypeNode typeChecker ty) of
             Some [signature] \<Rightarrow> list_all (\<lambda>s. declarations s \<noteq> None) (parameters signature)
           | _ \<Rightarrow> True)
      | Some _ \<Rightarrow> True)"

definition declarationsDefined :: "'ty ExportCommandInfo \<Rightarrow> bool" where
  "declarationsDefined info =
     list_all
       (\<lambda>commandName.
          case getProperty (program info) (mappedType info) commandName of
            None \<Rightarrow> True
          | Some methodSymbol \<Rightarrow> symbolDeclarationsDefined (program info) methodSymbol)
       (supportedCommands info)"

section \<open>A sample component type\<close>

text \<open>
  A type checker over a few semantic types and the members of a type \<open>MyViewCommands\<close>,
  used to evaluate the definitions at concrete inputs. \<open>refNode\<close> is the syntax tree of
  \<^verbatim>\<open>Ref<'MyView'>\<close> as the TypeScript parser builds it: a \<^verbatim>\<open>TypeReference\<close> named \<^verbatim>\<open>Ref\<close> whose
  single type argument is a \<^verbatim>\<open>LiteralType\<close> node holding the \<^verbatim>\<open>StringLiteral\<close>.
\<close>


datatype sample_type =
  CommandsT | VoidT | StringT | BooleanT | Int32T | NumberT
  | SetColorFnT | GenericFnT | OverloadedFnT | UnionFnT | AnyT

definition quoted :: "string \<Rightarrow> string" where
  "quoted s = [CHR 0x27] @ s @ [CHR 0x27]"

definition voidNode :: node where "voidNode = OtherNode ''void''"
definition stringNode :: node where "stringNode = OtherNode ''string''"
definition booleanNode :: node where "booleanNode = OtherNode ''boolean''"
definition numberNode :: node where "numberNode = OtherNode ''number''"
definition numberArrayNode :: node where "numberArrayNode = OtherNode ''number[]''"
definition int32Node :: node where "int32Node = TypeReference ''Int32'' ''Int32'' None"
definition myViewLiteral :: node where
  "myViewLiteral = LiteralType (quoted ''MyView'') (StringLiteral (quoted ''MyView''))"
definition refNode :: node where
  "refNode = TypeReference (''Ref<'' @ quoted ''MyView'' @ ''>'') ''Ref'' (Some [myViewLiteral])"
definition reactRefNode :: node where
  "reactRefNode = TypeReference (''React.Ref<'' @ quoted ''MyView'' @ ''>'') ''React.Ref'' (Some [myViewLiteral])"
definition commandsNode :: node where
  "commandsNode = TypeReference ''MyViewCommands'' ''MyViewCommands'' None"
definition setColorFnNode :: node where "setColorFnNode = OtherNode ''SetColorFn''"
definition genericFnNode :: node where "genericFnNode = OtherNode ''GenericFn''"
definition overloadedFnNode :: node where "overloadedFnNode = OtherNode ''OverloadedFn''"
definition unionFnNode :: node where "unionFnNode = OtherNode ''UnionFn''"

definition pd :: "string \<Rightarrow> node option \<Rightarrow> ParameterDeclaration" where
  "pd n t = \<lparr> param_name = n, param_type = t \<rparr>"

definition psym :: "string \<Rightarrow> node option \<Rightarrow> Symbol" where
  "psym n t = \<lparr> symbol_name = n, declarations = Some [Parameter (pd n t)] \<rparr>"

text \<open>
  The members and their declarations. \<open>mapped\<close> stands for a property of a mapped type,
  whose symbol has no declarations array; \<open>toggle\<close> is a property whose type is a union of
  function types; \<open>noReturn\<close> is a method written without a return type.
\<close>

definition sample_members :: "(string \<times> Declaration list option) list" where
  "sample_members =
    [(''focus'', Some [MethodSignature None [pd ''viewRef'' (Some refNode), pd ''durationMs'' (Some int32Node)] (Some voidNode) None]),
     (''setColor'', Some [PropertySignature (Some setColorFnNode) None]),
     (''blur'', Some [MethodSignature None [pd ''viewRef'' (Some reactRefNode)] (Some voidNode) (Some ())]),
     (''measure'', Some [MethodSignature (Some [''T'']) [pd ''viewRef'' (Some refNode)] (Some voidNode) None]),
     (''transform'', Some [PropertySignature (Some genericFnNode) None]),
     (''getTag'', Some [MethodSignature None [pd ''viewRef'' (Some refNode)] (Some numberNode) None]),
     (''reset'', Some [MethodSignature None [pd ''viewRef'' (Some refNode)] (Some voidNode) None,
                  MethodSignature None [pd ''viewRef'' (Some refNode), pd ''animated'' (Some booleanNode)] (Some voidNode) None]),
     (''pick'', Some [PropertySignature (Some overloadedFnNode) None]),
     (''title'', Some [PropertySignature (Some stringNode) None]),
     (''scrollTo'', Some [MethodSignature None [pd ''offset'' (Some stringNode)] (Some voidNode) None]),
     (''setItems'', Some [MethodSignature None [pd ''viewRef'' (Some refNode), pd ''label'' (Some stringNode), pd ''items'' (Some numberArrayNode)] (Some voidNode) None]),
     (''untyped'', Some [MethodSignature None [pd ''viewRef'' None] (Some voidNode) None]),
     (''setValue'', Some [MethodSignature None [pd ''viewRef'' (Some refNode), pd ''value'' None] (Some voidNode) None]),
     (''noReturn'', Some [MethodSignature None [pd ''viewRef'' (Some refNode)] None None]),
     (''empty'', Some []),
     (''mapped'', None),
     (''toggle'', Some [PropertySignature (Some unionFnNode) None])]"

definition sample_resolve :: "node option \<Rightarrow> sample_type" where
  "sample_resolve n =
     (case n of
        None \<Rightarrow> AnyT
      | Some t \<Rightarrow>
          (if getText t = ''MyViewCommands'' then CommandsT
           else if getText t = ''void'' then VoidT
           else if getText t = ''string'' then StringT
           else if getText t = ''boolean'' then BooleanT
           else if getText t = ''Int32'' then Int32T
           else if getText t = ''number'' then NumberT
           else if getText t = ''SetColorFn'' then SetColorFnT
           else if getText t = ''GenericFn'' then GenericFnT
           else if getText t = ''OverloadedFn'' then OverloadedFnT
           else if getText t = ''UnionFn'' then UnionFnT
           else AnyT))"

definition sample_signatures :: "sample_type \<Rightarrow> sample_type Signature list option" where
  "sample_signatures t =
     (if t = SetColorFnT then
        Some [\<lparr> typeParameters = None, getReturnType = VoidT,
                parameters = [psym ''ref'' (Some refNode), psym ''color'' (Some stringNode),
                              psym ''animated'' (Some booleanNode)] \<rparr>]
      else if t = GenericFnT then
        Some [\<lparr> typeParameters = Some [''T''], getReturnType = VoidT,
                parameters = [psym ''ref'' (Some refNode)] \<rparr>]
      else if t = OverloadedFnT then
        Some [\<lparr> typeParameters = None, getReturnType = VoidT,
                parameters = [psym ''ref'' (Some refNode)] \<rparr>,
              \<lparr> typeParameters = None, getReturnType = VoidT,
                parameters = [psym ''ref'' (Some refNode), psym ''index'' (Some int32Node)] \<rparr>]
      else if t = UnionFnT then
        Some [\<lparr> typeParameters = None, getReturnType = VoidT,
                parameters = [\<lparr> symbol_name = ''ref'', declarations = None \<rparr>] \<rparr>]
      else Some [])"

definition sample_checker :: "sample_type TypeChecker" where
  "sample_checker =
     \<lparr> getTypeFromTypeNode = sample_resolve,
       getProperty = (\<lambda>t n. if t = CommandsT
                             then map_option (\<lambda>ds. \<lparr> symbol_name = n, declarations = ds \<rparr>) (map_of sample_members n)
                             else None),
       getCallSignatures = sample_signatures,
       isString = (\<lambda>t. t = StringT),
       isBoolean = (\<lambda>t. t = BooleanT),
       isInt32 = (\<lambda>t. t = Int32T),
       isVoid = (\<lambda>t. t = VoidT) \<rparr>"

definition sample_info :: "string list \<Rightarrow> sample_type ExportCommandInfo" where
  "sample_info names = \<lparr> program = sample_checker, typeNode = commandsNode, supportedCommands = names \<rparr>"

text \<open>The symbol that \<open>getProperty\<close> returns for a member of the sample type.\<close>

definition sample_symbol :: "string \<Rightarrow> Symbol" where
  "sample_symbol n =
     \<lparr> symbol_name = n,
       declarations = (case map_of sample_members n of None \<Rightarrow> None | Some ds \<Rightarrow> ds) \<rparr>"

section \<open>Auxiliary facts\<close>

lemmas sample_defs =
  quoted_def voidNode_def stringNode_def booleanNode_def numberNode_def numberArrayNode_def
  int32Node_def myViewLiteral_def refNode_def reactRefNode_def commandsNode_def
  setColorFnNode_def genericFnNode_def overloadedFnNode_def unionFnNode_def pd_def psym_def
  sample_members_def
  sample_resolve_def sample_signatures_def sample_checker_def sample_info_def sample_symbol_def

subsection \<open>The loop\<close>

lemma parseCommandsLoop_Inr_iff:
  "parseCommandsLoop info mt names acc = Inr cs \<longleftrightarrow>
     (\<forall>n\<in>set names. \<not> isl (parseCommand info mt n)) \<and>
     cs = acc @ map (\<lambda>n. projr (parseCommand info mt n)) names"
proof (induction names arbitrary: acc)
  case Nil
  show ?case by auto
next
  case (Cons n names)
  show ?case
  proof (cases "parseCommand info mt n")
    case (Inl e)
    then show ?thesis by simp
  next
    case (Inr shape)
    then show ?thesis using Cons.IH [of "acc @ [shape]"] by simp
  qed
qed

lemma parseCommandsLoop_Inl:
  "parseCommandsLoop info mt names acc = Inl e
     \<Longrightarrow> \<exists>n\<in>set names. parseCommand info mt n = Inl e"
proof (induction names arbitrary: acc)
  case Nil
  then show ?case by simp
next
  case (Cons n names)
  then show ?case by (cases "parseCommand info mt n") auto
qed

lemma parseCommandsLoop_first_failure:
  assumes "\<forall>n\<in>set pre. \<not> isl (parseCommand info mt n)"
      and "parseCommand info mt n = Inl e"
  shows "parseCommandsLoop info mt (pre @ n # rest) acc = Inl e"
  using assms
proof (induction pre arbitrary: acc)
  case Nil
  then show ?case by simp
next
  case (Cons m pre)
  then obtain shape where "parseCommand info mt m = Inr shape"
    by (cases "parseCommand info mt m") auto
  with Cons show ?case by simp
qed

lemma parseCommands_first_failure:
  assumes "supportedCommands info = pre @ n # rest"
      and "\<forall>m\<in>set pre. \<not> isl (parseCommand info (mappedType info) m)"
      and "parseCommand info (mappedType info) n = Inl e"
  shows "parseCommands info = Inl e"
  using assms by (simp add: parseCommands_def parseCommandsLoop_first_failure)

lemma parseCommands_Inr_nth:
  assumes "parseCommands info = Inr cs" and "i < length (supportedCommands info)"
  shows "parseCommand info (mappedType info) (supportedCommands info ! i) = Inr (cs ! i)"
proof -
  from assms(1)
  have ok: "\<forall>n\<in>set (supportedCommands info). \<not> isl (parseCommand info (mappedType info) n)"
    and cs: "cs = map (\<lambda>n. projr (parseCommand info (mappedType info) n)) (supportedCommands info)"
    by (simp_all add: parseCommands_def parseCommandsLoop_Inr_iff)
  from ok assms(2)
  have "\<not> isl (parseCommand info (mappedType info) (supportedCommands info ! i))"
    by simp
  then show ?thesis
    using cs assms(2)
    by (cases "parseCommand info (mappedType info) (supportedCommands info ! i)") auto
qed

lemma parseCommands_Inr_at:
  assumes "parseCommands info = Inr cs" and "supportedCommands info = pre @ n # rest"
  shows "parseCommand info (mappedType info) n = Inr (cs ! length pre)"
  using parseCommands_Inr_nth [OF assms(1), of "length pre"] assms(2) by simp

subsection \<open>The body of the loop\<close>

lemma parseCommand_Inr_D:
  assumes "parseCommand info mt n = Inr c"
  shows "\<exists>methodSymbol funcDecl funcReturnType first others viewRefType ps.
           getProperty (program info) mt n = Some methodSymbol \<and>
           resolveDeclaration (program info) n (getText (typeNode info)) methodSymbol
             = Inr (Some (funcDecl, funcReturnType, first # others)) \<and>
           isVoid (program info) funcReturnType \<and>
           param_type first = Some viewRefType \<and>
           \<not> refusedViewRefType viewRefType \<and>
           mapParams (program info) n (getText (typeNode info)) others = Inr ps \<and>
           c = \<lparr> cmd_name = n, cmd_optional = (questionToken funcDecl \<noteq> None),
                 cmd_typeAnnotation = FunctionTypeAnnotation ps \<rparr>"
  using assms
  by (auto simp: parseCommand_def Let_def
        split: option.splits sum.splits prod.splits if_splits list.splits)

lemma parseCommand_name:
  "parseCommand info mt n = Inr c \<Longrightarrow> cmd_name c = n"
  by (auto dest: parseCommand_Inr_D)

lemma resolveDeclaration_Some_decl:
  "resolveDeclaration typeChecker commandName typeText methodSymbol = Inr (Some (d, rt, ps))
     \<Longrightarrow> declarations methodSymbol = Some [d]"
  by (auto simp: resolveDeclaration_def Let_def
        split: list.splits Declaration.splits option.splits if_splits sum.splits)

lemma mapParameterSymbols_Inr:
  "mapParameterSymbols commandName typeText syms = Inr ps
     \<Longrightarrow> map declarations syms = map (\<lambda>p. Some [Parameter p]) ps"
proof (induction syms arbitrary: ps)
  case Nil
  then show ?case by simp
next
  case (Cons s syms)
  then show ?case
    by (auto split: option.splits list.splits Declaration.splits sum.splits)
qed

lemma resolveDeclaration_property:
  assumes "declarations methodSymbol = Some [PropertySignature ty q]"
      and "resolveDeclaration typeChecker commandName typeText methodSymbol
             = Inr (Some (funcDecl, rt, ps))"
  shows "\<exists>signature.
           getCallSignatures typeChecker (getTypeFromTypeNode typeChecker ty) = Some [signature] \<and>
           funcDecl = PropertySignature ty q \<and> rt = getReturnType signature \<and>
           map declarations (parameters signature) = map (\<lambda>p. Some [Parameter p]) ps"
  using assms
  by (auto simp: resolveDeclaration_def Let_def dest: mapParameterSymbols_Inr
        split: option.splits list.splits if_splits sum.splits)

subsection \<open>The parameters\<close>

lemma mapParams_classified:
  assumes "\<forall>p\<in>set ps. classified typeChecker p"
  shows "mapParams typeChecker commandName typeText ps =
           Inr (map (\<lambda>p. \<lparr> par_name = param_name p,
                             par_typeAnnotation =
                               (let paramType = getTypeFromTypeNode typeChecker (param_type p) in
                                if isString typeChecker paramType then StringTypeAnnotation
                                else if isBoolean typeChecker paramType then BooleanTypeAnnotation
                                else Int32TypeAnnotation) \<rparr>) ps)"
  using assms
  by (induction ps) (auto simp: paramAnnotation_def classified_def Let_def)

lemma mapParams_first_failure:
  assumes "\<forall>p\<in>set good. classified typeChecker p"
      and "paramAnnotation typeChecker commandName typeText bad = Inl e"
  shows "mapParams typeChecker commandName typeText (good @ bad # later) = Inl e"
  using assms
proof (induction good)
  case Nil
  then show ?case by simp
next
  case (Cons p good)
  then have "\<exists>a. paramAnnotation typeChecker commandName typeText p = Inr a"
    by (auto simp: paramAnnotation_def classified_def Let_def)
  then show ?case using Cons by auto
qed

lemma mapParams_Inr_names:
  "mapParams typeChecker commandName typeText ps = Inr as
     \<Longrightarrow> map par_name as = map param_name ps"
proof (induction ps arbitrary: as)
  case Nil
  then show ?case by simp
next
  case (Cons p ps)
  then show ?case
    by (auto simp: paramAnnotation_def Let_def split: sum.splits option.splits if_splits)
qed

subsection \<open>The first parameter\<close>

text \<open>
  The condition of lines 61--66 on a type reference holds only when the reference is not
  named \<^verbatim>\<open>React.Ref\<close> and its single type argument is itself a node of kind
  \<^verbatim>\<open>StringLiteral\<close>. A literal written in type position is a \<^verbatim>\<open>LiteralType\<close> node, so no
  reference with such an argument is refused.
\<close>

lemma refusedViewRefType_iff:
  "refusedViewRefType v \<longleftrightarrow>
     \<not> isTypeReferenceNode v \<or>
     (\<exists>t name s. v = TypeReference t name (Some [StringLiteral s]) \<and> name \<noteq> ''React.Ref'')"
proof (cases v)
  case (TypeReference t name args)
  show ?thesis
  proof (cases args)
    case None
    with TypeReference show ?thesis by (simp add: refusedViewRefType_def)
  next
    case (Some as)
    show ?thesis
    proof (cases as)
      case Nil
      with TypeReference Some show ?thesis by (simp add: refusedViewRefType_def)
    next
      case (Cons a as')
      with TypeReference Some show ?thesis
        by (cases a; cases as') (auto simp: refusedViewRefType_def)
    qed
  qed
qed (simp_all add: refusedViewRefType_def)

lemma refusedViewRefType_bare_StringLiteral:
  "name \<noteq> ''React.Ref'' \<Longrightarrow> refusedViewRefType (TypeReference t name (Some [StringLiteral s]))"
  by (simp add: refusedViewRefType_iff)

lemma accepted_LiteralType_argument:
  "\<not> refusedViewRefType (TypeReference t name (Some [LiteralType s l]))"
  by (simp add: refusedViewRefType_iff)

subsection \<open>The sample type, evaluated\<close>

lemma sample_program: "program (sample_info names) = sample_checker"
  by (simp add: sample_info_def)

lemma sample_mappedType: "mappedType (sample_info names) = CommandsT"
  by (simp add: mappedType_def sample_defs)

lemma sample_supportedCommands: "supportedCommands (sample_info names) = names"
  by (simp add: sample_info_def)

lemma sample_typeText: "getText (typeNode (sample_info names)) = ''MyViewCommands''"
  by (simp add: sample_info_def commandsNode_def)

lemma sample_getProperty:
  "getProperty sample_checker CommandsT n =
     map_option (\<lambda>ds. \<lparr> symbol_name = n, declarations = ds \<rparr>) (map_of sample_members n)"
  by (simp add: sample_checker_def)

lemma sample_refNode: "\<not> refusedViewRefType refNode"
  by (simp add: refNode_def myViewLiteral_def accepted_LiteralType_argument)

lemma sample_isVoid: "isVoid sample_checker VoidT" "\<not> isVoid sample_checker NumberT"
  by (simp_all add: sample_checker_def)

lemma param_type_pd: "param_type (pd n t) = t"
  by (simp add: pd_def)

lemmas eval_defs =
  parseCommand_def resolveDeclaration_def paramAnnotation_def refusedViewRefType_def Let_def
  sample_defs

lemma sample_focus:
  "parseCommand (sample_info names) CommandsT ''focus'' =
     Inr \<lparr> cmd_name = ''focus'', cmd_optional = False,
           cmd_typeAnnotation = FunctionTypeAnnotation
             [\<lparr> par_name = ''durationMs'', par_typeAnnotation = Int32TypeAnnotation \<rparr>] \<rparr>"
  by (simp add: eval_defs)

lemma sample_setColor:
  "parseCommand (sample_info names) CommandsT ''setColor'' =
     Inr \<lparr> cmd_name = ''setColor'', cmd_optional = False,
           cmd_typeAnnotation = FunctionTypeAnnotation
             [\<lparr> par_name = ''color'', par_typeAnnotation = StringTypeAnnotation \<rparr>,
              \<lparr> par_name = ''animated'', par_typeAnnotation = BooleanTypeAnnotation \<rparr>] \<rparr>"
  by (simp add: eval_defs)

lemma sample_blur:
  "parseCommand (sample_info names) CommandsT ''blur'' =
     Inr \<lparr> cmd_name = ''blur'', cmd_optional = True,
           cmd_typeAnnotation = FunctionTypeAnnotation [] \<rparr>"
  by (simp add: eval_defs)

lemma sample_getTag:
  "parseCommand (sample_info names) CommandsT ''getTag'' =
     Inl (Error ''Command getTag in type MyViewCommands should return void.'')"
  by (simp add: eval_defs)

lemma sample_found:
  "getProperty sample_checker CommandsT ''focus'' = Some (sample_symbol ''focus'')"
  "getProperty sample_checker CommandsT ''setColor'' = Some (sample_symbol ''setColor'')"
  "getProperty sample_checker CommandsT ''blur'' = Some (sample_symbol ''blur'')"
  "getProperty sample_checker CommandsT ''measure'' = Some (sample_symbol ''measure'')"
  "getProperty sample_checker CommandsT ''transform'' = Some (sample_symbol ''transform'')"
  "getProperty sample_checker CommandsT ''getTag'' = Some (sample_symbol ''getTag'')"
  "getProperty sample_checker CommandsT ''reset'' = Some (sample_symbol ''reset'')"
  "getProperty sample_checker CommandsT ''pick'' = Some (sample_symbol ''pick'')"
  "getProperty sample_checker CommandsT ''title'' = Some (sample_symbol ''title'')"
  "getProperty sample_checker CommandsT ''scrollTo'' = Some (sample_symbol ''scrollTo'')"
  "getProperty sample_checker CommandsT ''setItems'' = Some (sample_symbol ''setItems'')"
  "getProperty sample_checker CommandsT ''untyped'' = Some (sample_symbol ''untyped'')"
  "getProperty sample_checker CommandsT ''setValue'' = Some (sample_symbol ''setValue'')"
  "getProperty sample_checker CommandsT ''noReturn'' = Some (sample_symbol ''noReturn'')"
  "getProperty sample_checker CommandsT ''empty'' = Some (sample_symbol ''empty'')"
  "getProperty sample_checker CommandsT ''mapped'' = Some (sample_symbol ''mapped'')"
  "getProperty sample_checker CommandsT ''toggle'' = Some (sample_symbol ''toggle'')"
  by (simp_all add: sample_getProperty sample_symbol_def sample_members_def)

lemma sample_declarations:
  "declarations (sample_symbol ''focus'') =
     Some [MethodSignature None [pd ''viewRef'' (Some refNode), pd ''durationMs'' (Some int32Node)]
        (Some voidNode) None]"
  "declarations (sample_symbol ''blur'') =
     Some [MethodSignature None [pd ''viewRef'' (Some reactRefNode)] (Some voidNode) (Some ())]"
  "declarations (sample_symbol ''measure'') =
     Some [MethodSignature (Some [''T'']) [pd ''viewRef'' (Some refNode)] (Some voidNode) None]"
  "declarations (sample_symbol ''setColor'') = Some [PropertySignature (Some setColorFnNode) None]"
  "declarations (sample_symbol ''transform'') = Some [PropertySignature (Some genericFnNode) None]"
  "declarations (sample_symbol ''pick'') = Some [PropertySignature (Some overloadedFnNode) None]"
  "declarations (sample_symbol ''title'') = Some [PropertySignature (Some stringNode) None]"
  "declarations (sample_symbol ''mapped'') = None"
  "declarations (sample_symbol ''empty'') = Some []"
  by (simp_all add: sample_symbol_def sample_members_def)

lemma sample_resolved:
  "resolveDeclaration sample_checker ''setColor'' typeText (sample_symbol ''setColor'') =
     Inr (Some (PropertySignature (Some setColorFnNode) None, VoidT,
                pd ''ref'' (Some refNode) #
                [pd ''color'' (Some stringNode), pd ''animated'' (Some booleanNode)]))"
  "resolveDeclaration sample_checker ''setItems'' typeText (sample_symbol ''setItems'') =
     Inr (Some (hd (the (declarations (sample_symbol ''setItems''))), VoidT,
                pd ''viewRef'' (Some refNode) #
                [pd ''label'' (Some stringNode), pd ''items'' (Some numberArrayNode)]))"
  "resolveDeclaration sample_checker ''scrollTo'' typeText (sample_symbol ''scrollTo'') =
     Inr (Some (hd (the (declarations (sample_symbol ''scrollTo''))), VoidT,
                pd ''offset'' (Some stringNode) # []))"
  "resolveDeclaration sample_checker ''getTag'' typeText (sample_symbol ''getTag'') =
     Inr (Some (hd (the (declarations (sample_symbol ''getTag''))), NumberT,
                [pd ''viewRef'' (Some refNode)]))"
  by (simp_all add: resolveDeclaration_def sample_defs)

lemma sample_classified:
  "classified sample_checker (pd ''color'' (Some stringNode))"
  "classified sample_checker (pd ''animated'' (Some booleanNode))"
  "classified sample_checker (pd ''label'' (Some stringNode))"
  "\<not> classified sample_checker (pd ''items'' (Some numberArrayNode))"
  by (simp_all add: classified_def sample_defs)

subsection \<open>Where the runtime fault can come from\<close>

lemma mapParameterSymbols_no_fault:
  "list_all (\<lambda>s. declarations s \<noteq> None) syms
     \<Longrightarrow> mapParameterSymbols commandName typeText syms \<noteq> Inl TypeError"
  by (induction syms) (auto split: option.splits list.splits Declaration.splits sum.splits)

lemma resolveDeclaration_no_fault:
  assumes "symbolDeclarationsDefined typeChecker methodSymbol"
  shows "resolveDeclaration typeChecker commandName typeText methodSymbol \<noteq> Inl TypeError"
proof (cases "declarations methodSymbol")
  case None
  with assms show ?thesis by (simp add: symbolDeclarationsDefined_def)
next
  case (Some ds)
  show ?thesis
  proof (cases "\<exists>ty q signature. ds = [PropertySignature ty q] \<and>
                  getCallSignatures typeChecker (getTypeFromTypeNode typeChecker ty) = Some [signature]")
    case True
    then obtain ty q signature where ds: "ds = [PropertySignature ty q]"
      and sg: "getCallSignatures typeChecker (getTypeFromTypeNode typeChecker ty) = Some [signature]"
      by blast
    from assms Some ds sg have "list_all (\<lambda>s. declarations s \<noteq> None) (parameters signature)"
      by (simp add: symbolDeclarationsDefined_def)
    then have "mapParameterSymbols commandName typeText (parameters signature) \<noteq> Inl TypeError"
      by (rule mapParameterSymbols_no_fault)
    with Some ds sg show ?thesis
      by (auto simp: resolveDeclaration_def Let_def split: sum.splits)
  next
    case False
    with Some show ?thesis
      by (auto simp: resolveDeclaration_def Let_def
            split: list.splits Declaration.splits option.splits sum.splits)
  qed
qed

lemma mapParams_no_fault:
  "list_all (\<lambda>p. param_type p \<noteq> None) ps
     \<Longrightarrow> mapParams typeChecker commandName typeText ps \<noteq> Inl TypeError"
  by (induction ps)
     (auto simp: paramAnnotation_def Let_def split: sum.splits option.splits if_splits)

text \<open>
  Only the declarations arrays and the parameter annotations matter for the fault: the
  return type annotation is handed to \<open>getTypeFromTypeNode\<close> and not read by the code itself.
\<close>

lemma parseCommand_no_fault:
  assumes defined: "\<And>methodSymbol.
             getProperty (program info) mt commandName = Some methodSymbol \<Longrightarrow>
             symbolDeclarationsDefined (program info) methodSymbol"
      and typed: "\<And>methodSymbol funcDecl funcReturnType funcParameters.
             getProperty (program info) mt commandName = Some methodSymbol \<Longrightarrow>
             resolveDeclaration (program info) commandName (getText (typeNode info)) methodSymbol
               = Inr (Some (funcDecl, funcReturnType, funcParameters)) \<Longrightarrow>
             list_all (\<lambda>p. param_type p \<noteq> None) funcParameters"
  shows "parseCommand info mt commandName \<noteq> Inl TypeError"
proof (cases "getProperty (program info) mt commandName")
  case None
  then show ?thesis by (simp add: parseCommand_def Let_def)
next
  case (Some methodSymbol)
  note found = this
  show ?thesis
  proof (cases "resolveDeclaration (program info) commandName (getText (typeNode info)) methodSymbol")
    case (Inl e)
    have "e \<noteq> TypeError"
      using resolveDeclaration_no_fault [OF defined [OF found]] Inl by metis
    with Inl found show ?thesis by (simp add: parseCommand_def Let_def)
  next
    case (Inr r)
    show ?thesis
    proof (cases r)
      case None
      with Inr found show ?thesis by (simp add: parseCommand_def Let_def)
    next
      case (Some triple)
      obtain funcDecl funcReturnType funcParameters
        where triple: "triple = (funcDecl, funcReturnType, funcParameters)"
        by (cases triple) auto
      have ps: "list_all (\<lambda>p. param_type p \<noteq> None) funcParameters"
        using typed found Inr Some triple by blast
      show ?thesis
      proof (cases funcParameters)
        case Nil
        with Inr Some triple found
        show ?thesis by (simp add: parseCommand_def Let_def)
      next
        case (Cons first others)
        with ps obtain viewRefType where v: "param_type first = Some viewRefType"
          and rest: "list_all (\<lambda>p. param_type p \<noteq> None) others"
          by auto
        have "mapParams (program info) commandName (getText (typeNode info)) others \<noteq> Inl TypeError"
          using rest by (rule mapParams_no_fault)
        with Inr Some triple Cons v found
        show ?thesis
          by (auto simp: parseCommand_def Let_def split: sum.splits)
      qed
    qed
  qed
qed

subsection \<open>Members with a declarations array of zero or several entries\<close>

lemma other_than_one_declaration_not_a_function:
  assumes "supportedCommands info = pre @ commandName # rest"
      and "\<forall>n\<in>set pre. \<not> isl (parseCommand info (mappedType info) n)"
      and "getProperty (program info) (mappedType info) commandName = Some methodSymbol"
      and "declarations methodSymbol = Some ds"
      and "length ds \<noteq> 1"
  shows "parseCommands info =
           Inl (Error (''Command '' @ commandName @ '' in type '' @ getText (typeNode info)
                        @ '' should be a function.''))"
proof -
  have "resolveDeclaration (program info) commandName (getText (typeNode info)) methodSymbol
          = Inr None"
    using assms(4,5) by (cases ds rule: list.exhaust)
      (auto simp: resolveDeclaration_def split: list.splits)
  then have "parseCommand info (mappedType info) commandName =
           Inl (Error (''Command '' @ commandName @ '' in type '' @ getText (typeNode info)
                        @ '' should be a function.''))"
    using assms(3) by (simp add: parseCommand_def Let_def)
  with assms(1,2) show ?thesis by (rule parseCommands_first_failure)
qed

lemma sample_reset_empty:
  "parseCommands (sample_info [''focus'', ''reset'', ''blur'']) =
     Inl (Error ''Command reset in type MyViewCommands should be a function.'')"
  "parseCommands (sample_info [''empty'']) =
     Inl (Error ''Command empty in type MyViewCommands should be a function.'')"
  by (simp_all add: parseCommands_def sample_mappedType sample_supportedCommands sample_focus)
     (simp_all add: eval_defs)

subsection \<open>Parameters that carry a declared type\<close>

text \<open>
  The classification of the parameters after the first, when each of them carries a
  declared type: kinds follow the priority string, boolean, Int32, names and order are
  those of the declarations, and the first parameter of no category raises the error of
  line 88.
\<close>

lemma parameter_classification:
  assumes "supportedCommands info = pre @ commandName # rest"
      and "\<forall>n\<in>set pre. \<not> isl (parseCommand info (mappedType info) n)"
      and "getProperty (program info) (mappedType info) commandName = Some methodSymbol"
      and "resolveDeclaration (program info) commandName (getText (typeNode info)) methodSymbol
             = Inr (Some (funcDecl, funcReturnType, first # others))"
      and "isVoid (program info) funcReturnType"
      and "param_type first = Some viewRefType"
      and "\<not> refusedViewRefType viewRefType"
  shows "((\<forall>p\<in>set others. classified (program info) p) \<longrightarrow>
            (\<exists>c. parseCommand info (mappedType info) commandName = Inr c \<and>
                 (\<forall>cs. parseCommands info = Inr cs \<longrightarrow> cs ! length pre = c) \<and>
                 map par_name (params (cmd_typeAnnotation c)) = map param_name others \<and>
                 (\<forall>i<length others.
                    par_typeAnnotation (params (cmd_typeAnnotation c) ! i) =
                      (let paramType = getTypeFromTypeNode (program info) (param_type (others ! i)) in
                       if isString (program info) paramType then StringTypeAnnotation
                       else if isBoolean (program info) paramType then BooleanTypeAnnotation
                       else Int32TypeAnnotation)))) \<and>
         (\<forall>good bad later t.
            others = good @ bad # later \<and> (\<forall>p\<in>set good. classified (program info) p) \<and>
            \<not> classified (program info) bad \<and> param_type bad = Some t \<longrightarrow>
            parseCommands info =
              Inl (Error (''Parameter '' @ param_name bad @ '' in command '' @ commandName
                     @ '' in type '' @ getText (typeNode info)
                     @ '' should be either string, boolean or Int32, instead of ''
                     @ getText t @ ''.'')))"
proof (intro conjI impI allI)
  assume ok: "\<forall>p\<in>set others. classified (program info) p"
  let ?kind = "\<lambda>p. (let paramType = getTypeFromTypeNode (program info) (param_type p) in
                       if isString (program info) paramType then StringTypeAnnotation
                       else if isBoolean (program info) paramType then BooleanTypeAnnotation
                       else Int32TypeAnnotation)"
  let ?ps = "map (\<lambda>p. \<lparr> par_name = param_name p, par_typeAnnotation = ?kind p \<rparr>) others"
  let ?c = "\<lparr> cmd_name = commandName, cmd_optional = (questionToken funcDecl \<noteq> None),
               cmd_typeAnnotation = FunctionTypeAnnotation ?ps \<rparr>"
  have mp: "mapParams (program info) commandName (getText (typeNode info)) others = Inr ?ps"
    using ok by (rule mapParams_classified)
  have pc: "parseCommand info (mappedType info) commandName = Inr ?c"
    using assms(3,4,5,6,7) mp by (simp add: parseCommand_def Let_def)
  have whole: "\<forall>cs. parseCommands info = Inr cs \<longrightarrow> cs ! length pre = ?c"
    using parseCommands_Inr_at [OF _ assms(1)] pc by auto
  have names: "map par_name (params (cmd_typeAnnotation ?c)) = map param_name others"
    by (simp add: comp_def)
  have kinds: "\<forall>i<length others.
                 par_typeAnnotation (params (cmd_typeAnnotation ?c) ! i) = ?kind (others ! i)"
    by simp
  show "\<exists>c. parseCommand info (mappedType info) commandName = Inr c \<and>
                 (\<forall>cs. parseCommands info = Inr cs \<longrightarrow> cs ! length pre = c) \<and>
                 map par_name (params (cmd_typeAnnotation c)) = map param_name others \<and>
                 (\<forall>i<length others.
                    par_typeAnnotation (params (cmd_typeAnnotation c) ! i) = ?kind (others ! i))"
    using pc whole names kinds by blast
next
  fix good bad later t
  assume h: "others = good @ bad # later \<and> (\<forall>p\<in>set good. classified (program info) p) \<and>
            \<not> classified (program info) bad \<and> param_type bad = Some t"
  let ?e = "Error (''Parameter '' @ param_name bad @ '' in command '' @ commandName
                     @ '' in type '' @ getText (typeNode info)
                     @ '' should be either string, boolean or Int32, instead of ''
                     @ getText t @ ''.'')"
  have "paramAnnotation (program info) commandName (getText (typeNode info)) bad = Inl ?e"
    using h by (auto simp: paramAnnotation_def classified_def Let_def)
  then have "mapParams (program info) commandName (getText (typeNode info)) others = Inl ?e"
    using h mapParams_first_failure
            [of good "program info" commandName "getText (typeNode info)" bad ?e later]
    by simp
  then have "parseCommand info (mappedType info) commandName = Inl ?e"
    using assms(3,4,5,6,7) by (simp add: parseCommand_def Let_def)
  with assms(1,2) show "parseCommands info = Inl ?e" by (rule parseCommands_first_failure)
qed

lemma sample_setValue_resolved:
  "resolveDeclaration sample_checker ''setValue'' typeText (sample_symbol ''setValue'') =
     Inr (Some (hd (the (declarations (sample_symbol ''setValue''))), VoidT,
                pd ''viewRef'' (Some refNode) # [pd ''value'' None]))"
  by (simp add: resolveDeclaration_def sample_defs)

lemma sample_unclassified_value: "\<not> classified sample_checker (pd ''value'' None)"
  by (simp add: classified_def sample_defs)

section \<open>Claims\<close>

text \<open>
  C1. For the request \<^verbatim>\<open>["focus"]\<close> on a type whose member \<^verbatim>\<open>focus\<close> is declared
  \<^verbatim>\<open>focus(viewRef: Ref<'MyView'>, durationMs: Int32): void\<close>, with a checker for which
  \<^verbatim>\<open>void\<close> is void-like and \<^verbatim>\<open>Int32\<close> is 32-bit-integer-like (and neither string-like nor
  boolean-like), \<open>parseCommands\<close> returns exactly the one shape named \<^verbatim>\<open>focus\<close>, not optional,
  with the single parameter \<^verbatim>\<open>durationMs\<close> of kind Int32. The first parameter is accepted
  and dropped: the type argument of \<^verbatim>\<open>Ref<'MyView'>\<close> is a \<^verbatim>\<open>LiteralType\<close> node, on which
  \<^verbatim>\<open>ts.isStringLiteral\<close> is false, so the second disjunct of lines 61--66 does not hold
  (it would hold for a type argument of kind \<^verbatim>\<open>StringLiteral\<close>, see
  \<open>refusedViewRefType_bare_StringLiteral\<close>).
\<close>

theorem focus_scenario:
  assumes "supportedCommands info = [''focus'']"
      and "getProperty (program info) (mappedType info) ''focus'' = Some methodSymbol"
      and "declarations methodSymbol =
             Some [MethodSignature None
                [\<lparr> param_name = ''viewRef'', param_type = Some refNode \<rparr>,
                 \<lparr> param_name = ''durationMs'', param_type = Some int32Node \<rparr>]
                (Some voidNode) None]"
      and "isVoid (program info) (getTypeFromTypeNode (program info) (Some voidNode))"
      and "\<not> isString (program info) (getTypeFromTypeNode (program info) (Some int32Node))"
      and "\<not> isBoolean (program info) (getTypeFromTypeNode (program info) (Some int32Node))"
      and "isInt32 (program info) (getTypeFromTypeNode (program info) (Some int32Node))"
  shows "parseCommands info =
           Inr [\<lparr> cmd_name = ''focus'', cmd_optional = False,
                  cmd_typeAnnotation = FunctionTypeAnnotation
                    [\<lparr> par_name = ''durationMs'', par_typeAnnotation = Int32TypeAnnotation \<rparr>] \<rparr>]"
proof -
  have res: "resolveDeclaration (program info) ''focus'' (getText (typeNode info)) methodSymbol =
          Inr (Some (hd (the (declarations methodSymbol)),
                     getTypeFromTypeNode (program info) (Some voidNode),
                     [\<lparr> param_name = ''viewRef'', param_type = Some refNode \<rparr>,
                      \<lparr> param_name = ''durationMs'', param_type = Some int32Node \<rparr>]))"
    using assms(3) by (simp add: resolveDeclaration_def)
  have "parseCommand info (mappedType info) ''focus'' =
          Inr \<lparr> cmd_name = ''focus'', cmd_optional = False,
                cmd_typeAnnotation = FunctionTypeAnnotation
                  [\<lparr> par_name = ''durationMs'', par_typeAnnotation = Int32TypeAnnotation \<rparr>] \<rparr>"
    using assms(2,3,4,5,6,7) sample_refNode res
    by (simp add: parseCommand_def Let_def paramAnnotation_def)
  then show ?thesis using assms(1) by (simp add: parseCommands_def)
qed

theorem focus_scenario_witness:
  "supportedCommands (sample_info [''focus'']) = [''focus''] \<and>
   getProperty sample_checker CommandsT ''focus'' = Some (sample_symbol ''focus'') \<and>
   isVoid sample_checker (getTypeFromTypeNode sample_checker (Some voidNode)) \<and>
   isInt32 sample_checker (getTypeFromTypeNode sample_checker (Some int32Node)) \<and>
   parseCommands (sample_info [''focus'']) =
     Inr [\<lparr> cmd_name = ''focus'', cmd_optional = False,
            cmd_typeAnnotation = FunctionTypeAnnotation
              [\<lparr> par_name = ''durationMs'', par_typeAnnotation = Int32TypeAnnotation \<rparr>] \<rparr>]"
proof -
  let ?info = "sample_info [''focus'']"
  have h1: "supportedCommands ?info = [''focus'']"
    by (simp add: sample_supportedCommands)
  have h2: "getProperty (program ?info) (mappedType ?info) ''focus'' = Some (sample_symbol ''focus'')"
    by (simp add: sample_program sample_mappedType sample_found)
  have h3: "declarations (sample_symbol ''focus'') =
             Some [MethodSignature None
                [\<lparr> param_name = ''viewRef'', param_type = Some refNode \<rparr>,
                 \<lparr> param_name = ''durationMs'', param_type = Some int32Node \<rparr>]
                (Some voidNode) None]"
    by (simp add: sample_declarations pd_def)
  have h4: "isVoid (program ?info) (getTypeFromTypeNode (program ?info) (Some voidNode))"
    and h5: "\<not> isString (program ?info) (getTypeFromTypeNode (program ?info) (Some int32Node))"
    and h6: "\<not> isBoolean (program ?info) (getTypeFromTypeNode (program ?info) (Some int32Node))"
    and h7: "isInt32 (program ?info) (getTypeFromTypeNode (program ?info) (Some int32Node))"
    by (simp_all add: sample_program sample_checker_def sample_resolve_def voidNode_def int32Node_def)
  from focus_scenario [OF h1 h2 h3 h4 h5 h6 h7] h1 h2 h4 h7
  show ?thesis by (simp add: sample_program sample_mappedType)
qed

text \<open>
  C2. When every requested name validates (the body of the loop returns a shape for it),
  \<open>parseCommands\<close> returns a sequence as long as the request, whose names are the requested
  names in the request's order and whose \<open>i\<close>-th element is the shape of the \<open>i\<close>-th name.
  When some requested name fails, the call fails with an error, the error of one of the
  requested names, and returns no sequence.
\<close>

theorem parseCommands_all_or_nothing:
  "((\<forall>n\<in>set (supportedCommands info). \<not> isl (parseCommand info (mappedType info) n)) \<longrightarrow>
      (\<exists>cs. parseCommands info = Inr cs \<and>
            length cs = length (supportedCommands info) \<and>
            map cmd_name cs = supportedCommands info \<and>
            (\<forall>i<length cs.
               parseCommand info (mappedType info) (supportedCommands info ! i) = Inr (cs ! i)))) \<and>
   ((\<exists>n\<in>set (supportedCommands info). isl (parseCommand info (mappedType info) n)) \<longrightarrow>
      (\<exists>e. parseCommands info = Inl e \<and>
           (\<exists>n\<in>set (supportedCommands info). parseCommand info (mappedType info) n = Inl e)))"
proof (intro conjI impI)
  assume ok: "\<forall>n\<in>set (supportedCommands info). \<not> isl (parseCommand info (mappedType info) n)"
  define cs where
    "cs = map (\<lambda>n. projr (parseCommand info (mappedType info) n)) (supportedCommands info)"
  have res: "parseCommands info = Inr cs"
    using ok by (simp add: parseCommands_def parseCommandsLoop_Inr_iff cs_def)
  have len: "length cs = length (supportedCommands info)"
    by (simp add: cs_def)
  have nth: "\<forall>i<length cs.
               parseCommand info (mappedType info) (supportedCommands info ! i) = Inr (cs ! i)"
    using parseCommands_Inr_nth [OF res] len by simp
  have "map cmd_name cs = supportedCommands info"
  proof (rule nth_equalityI)
    show "length (map cmd_name cs) = length (supportedCommands info)" using len by simp
  next
    fix i assume "i < length (map cmd_name cs)"
    then have i: "i < length cs" by simp
    with nth have "parseCommand info (mappedType info) (supportedCommands info ! i) = Inr (cs ! i)"
      by simp
    then have "cmd_name (cs ! i) = supportedCommands info ! i" by (rule parseCommand_name)
    then show "map cmd_name cs ! i = supportedCommands info ! i"
      using i by simp
  qed
  with res len nth
  show "\<exists>cs. parseCommands info = Inr cs \<and>
            length cs = length (supportedCommands info) \<and>
            map cmd_name cs = supportedCommands info \<and>
            (\<forall>i<length cs.
               parseCommand info (mappedType info) (supportedCommands info ! i) = Inr (cs ! i))"
    by blast
next
  assume bad: "\<exists>n\<in>set (supportedCommands info). isl (parseCommand info (mappedType info) n)"
  have "\<not> (\<exists>cs. parseCommands info = Inr cs)"
    using bad by (auto simp: parseCommands_def parseCommandsLoop_Inr_iff)
  then obtain e where e: "parseCommands info = Inl e"
    by (cases "parseCommands info") auto
  then have "\<exists>n\<in>set (supportedCommands info). parseCommand info (mappedType info) n = Inl e"
    by (simp add: parseCommands_def parseCommandsLoop_Inl)
  with e show "\<exists>e. parseCommands info = Inl e \<and>
           (\<exists>n\<in>set (supportedCommands info). parseCommand info (mappedType info) n = Inl e)"
    by blast
qed

theorem parseCommands_all_or_nothing_witness:
  "\<not> isl (parseCommand (sample_info [''setColor'', ''focus'']) CommandsT ''setColor'') \<and>
   \<not> isl (parseCommand (sample_info [''setColor'', ''focus'']) CommandsT ''focus'') \<and>
   (\<exists>cs. parseCommands (sample_info [''setColor'', ''focus'']) = Inr cs \<and> length cs = 2 \<and>
         map cmd_name cs = [''setColor'', ''focus'']) \<and>
   isl (parseCommand (sample_info [''focus'', ''getTag'', ''setColor'']) CommandsT ''getTag'') \<and>
   (\<exists>e. parseCommands (sample_info [''focus'', ''getTag'', ''setColor'']) = Inl e)"
  using parseCommands_all_or_nothing [of "sample_info [''setColor'', ''focus'']"]
        parseCommands_all_or_nothing [of "sample_info [''focus'', ''getTag'', ''setColor'']"]
  by (auto simp: sample_mappedType sample_supportedCommands sample_focus sample_setColor
        sample_getTag)

text \<open>
  C3. A requested command whose member symbol has other than exactly one declaration
  site is to fail with the error of line 50, "should be a function". The code does so
  when the symbol has a declarations array of zero or several entries
  (\<open>other_than_one_declaration_not_a_function\<close>). A symbol without any declaration site
  has no declarations array: for a reached command with such a member symbol, line 21
  reads \<^verbatim>\<open>length\<close> of \<^verbatim>\<open>undefined\<close> and the call ends in the runtime's TypeError instead.
\<close>

theorem undefined_declarations_fault:
  assumes "supportedCommands info = pre @ commandName # rest"
      and "\<forall>n\<in>set pre. \<not> isl (parseCommand info (mappedType info) n)"
      and "getProperty (program info) (mappedType info) commandName = Some methodSymbol"
      and "declarations methodSymbol = None"
  shows "parseCommands info = Inl TypeError"
proof -
  have "resolveDeclaration (program info) commandName (getText (typeNode info)) methodSymbol
          = Inl TypeError"
    using assms(4) by (simp add: resolveDeclaration_def)
  then have "parseCommand info (mappedType info) commandName = Inl TypeError"
    using assms(3) by (simp add: parseCommand_def Let_def)
  with assms(1,2) show ?thesis by (rule parseCommands_first_failure)
qed

theorem undefined_declarations_fault_witness:
  "supportedCommands (sample_info [''focus'', ''mapped'']) = [''focus''] @ ''mapped'' # [] \<and>
   \<not> isl (parseCommand (sample_info [''focus'', ''mapped'']) CommandsT ''focus'') \<and>
   getProperty sample_checker CommandsT ''mapped'' = Some (sample_symbol ''mapped'') \<and>
   declarations (sample_symbol ''mapped'') = None \<and>
   parseCommands (sample_info [''focus'', ''mapped'']) = Inl TypeError"
proof -
  let ?info = "sample_info [''focus'', ''mapped'']"
  have h1: "supportedCommands ?info = [''focus''] @ ''mapped'' # []"
    by (simp add: sample_supportedCommands)
  have h2: "\<forall>n\<in>set [''focus'']. \<not> isl (parseCommand ?info (mappedType ?info) n)"
    by (simp add: sample_mappedType sample_focus)
  have h3: "getProperty (program ?info) (mappedType ?info) ''mapped'' = Some (sample_symbol ''mapped'')"
    by (simp add: sample_program sample_mappedType sample_found)
  have h4: "declarations (sample_symbol ''mapped'') = None"
    by (rule sample_declarations)
  from undefined_declarations_fault [OF h1 h2 h3 h4] h1 h2 h3 h4
  show ?thesis by (simp add: sample_program sample_mappedType)
qed

text \<open>
  C4. A parameter after the first whose resolved type is in none of the three categories
  is to make the call fail with the error of line 88, naming the parameter, the command
  and the declared type text. The code classifies in the priority string, boolean, Int32
  and raises that error for a parameter that carries a declared type
  (\<open>parameter_classification\<close>). For a parameter written without a type annotation whose
  resolved type is in no category, the message of line 88 reads \<^verbatim>\<open>param.type.getText()\<close> of
  \<^verbatim>\<open>undefined\<close>: when the parameters before it are classified, the call ends in the runtime's
  TypeError instead of that error.
\<close>

theorem unannotated_parameter_fault:
  assumes "supportedCommands info = pre @ commandName # rest"
      and "\<forall>n\<in>set pre. \<not> isl (parseCommand info (mappedType info) n)"
      and "getProperty (program info) (mappedType info) commandName = Some methodSymbol"
      and "resolveDeclaration (program info) commandName (getText (typeNode info)) methodSymbol
             = Inr (Some (funcDecl, funcReturnType, first # others))"
      and "isVoid (program info) funcReturnType"
      and "param_type first = Some viewRefType"
      and "\<not> refusedViewRefType viewRefType"
      and "others = good @ bad # later"
      and "\<forall>p\<in>set good. classified (program info) p"
      and "\<not> classified (program info) bad"
      and "param_type bad = None"
  shows "parseCommands info = Inl TypeError"
proof -
  have "paramAnnotation (program info) commandName (getText (typeNode info)) bad = Inl TypeError"
    using assms(10,11) by (auto simp: paramAnnotation_def classified_def Let_def)
  with assms(9)
  have "mapParams (program info) commandName (getText (typeNode info)) (good @ bad # later)
          = Inl TypeError"
    by (rule mapParams_first_failure)
  then have "parseCommand info (mappedType info) commandName = Inl TypeError"
    using assms(3,4,5,6,7,8) by (simp add: parseCommand_def Let_def)
  with assms(1,2) show ?thesis by (rule parseCommands_first_failure)
qed

theorem unannotated_parameter_fault_witness:
  "supportedCommands (sample_info [''focus'', ''setValue'']) = [''focus''] @ ''setValue'' # [] \<and>
   \<not> isl (parseCommand (sample_info [''focus'', ''setValue'']) CommandsT ''focus'') \<and>
   getProperty sample_checker CommandsT ''setValue'' = Some (sample_symbol ''setValue'') \<and>
   \<not> refusedViewRefType refNode \<and>
   \<not> classified sample_checker (pd ''value'' None) \<and>
   param_type (pd ''value'' None) = None \<and>
   parseCommands (sample_info [''focus'', ''setValue'']) = Inl TypeError"
proof -
  let ?info = "sample_info [''focus'', ''setValue'']"
  have h1: "supportedCommands ?info = [''focus''] @ ''setValue'' # []"
    by (simp add: sample_supportedCommands)
  have h2: "\<forall>n\<in>set [''focus'']. \<not> isl (parseCommand ?info (mappedType ?info) n)"
    by (simp add: sample_mappedType sample_focus)
  have h3: "getProperty (program ?info) (mappedType ?info) ''setValue''
              = Some (sample_symbol ''setValue'')"
    by (simp add: sample_program sample_mappedType sample_found)
  have h4: "resolveDeclaration (program ?info) ''setValue'' (getText (typeNode ?info))
              (sample_symbol ''setValue'')
            = Inr (Some (hd (the (declarations (sample_symbol ''setValue''))), VoidT,
                         pd ''viewRef'' (Some refNode) # [pd ''value'' None]))"
    by (simp add: sample_program sample_setValue_resolved)
  have h5: "isVoid (program ?info) VoidT"
    by (simp add: sample_program sample_isVoid)
  have h8: "[pd ''value'' None] = [] @ pd ''value'' None # []" by simp
  have h9: "\<forall>p\<in>set []. classified (program ?info) p" by simp
  have h10: "\<not> classified (program ?info) (pd ''value'' None)"
    by (simp add: sample_program sample_unclassified_value)
  have h11: "param_type (pd ''value'' None) = None" by (rule param_type_pd)
  from unannotated_parameter_fault [OF h1 h2 h3 h4 h5 param_type_pd sample_refNode h8 h9 h10 h11]
    h1 h2 h3 h10 h11 sample_refNode
  show ?thesis by (simp add: sample_program sample_mappedType)
qed

text \<open>
  C5. When a reached command has resolved to a declaration with a void return type and at
  least one parameter, and the declared type of the first parameter is a node that is not
  a type reference, the call fails with the error of line 67,
  "should be React.Ref<'NAME'>".
\<close>

theorem non_reference_first_parameter:
  assumes "supportedCommands info = pre @ commandName # rest"
      and "\<forall>n\<in>set pre. \<not> isl (parseCommand info (mappedType info) n)"
      and "getProperty (program info) (mappedType info) commandName = Some methodSymbol"
      and "resolveDeclaration (program info) commandName (getText (typeNode info)) methodSymbol
             = Inr (Some (funcDecl, funcReturnType, first # others))"
      and "isVoid (program info) funcReturnType"
      and "param_type first = Some viewRefType"
      and "\<not> isTypeReferenceNode viewRefType"
  shows "parseCommands info =
           Inl (Error (''The first parameter in command '' @ commandName @ '' in type ''
                        @ getText (typeNode info) @ '' should be React.Ref<'' @ [CHR 0x27]
                        @ ''NAME'' @ [CHR 0x27] @ ''>.''))"
proof -
  have "refusedViewRefType viewRefType"
    using assms(7) by (simp add: refusedViewRefType_def)
  then have "parseCommand info (mappedType info) commandName =
           Inl (Error (''The first parameter in command '' @ commandName @ '' in type ''
                        @ getText (typeNode info) @ '' should be React.Ref<'' @ [CHR 0x27]
                        @ ''NAME'' @ [CHR 0x27] @ ''>.''))"
    using assms(3,4,5,6) by (simp add: parseCommand_def Let_def)
  with assms(1,2) show ?thesis by (rule parseCommands_first_failure)
qed

theorem non_reference_first_parameter_witness:
  "supportedCommands (sample_info [''focus'', ''scrollTo'']) = [''focus''] @ ''scrollTo'' # [] \<and>
   \<not> isl (parseCommand (sample_info [''focus'', ''scrollTo'']) CommandsT ''focus'') \<and>
   getProperty sample_checker CommandsT ''scrollTo'' = Some (sample_symbol ''scrollTo'') \<and>
   param_type (pd ''offset'' (Some stringNode)) = Some stringNode \<and>
   \<not> isTypeReferenceNode stringNode \<and>
   parseCommands (sample_info [''focus'', ''scrollTo'']) =
     Inl (Error (''The first parameter in command scrollTo in type MyViewCommands should be React.Ref<''
                  @ [CHR 0x27] @ ''NAME'' @ [CHR 0x27] @ ''>.''))"
proof -
  let ?info = "sample_info [''focus'', ''scrollTo'']"
  have h1: "supportedCommands ?info = [''focus''] @ ''scrollTo'' # []"
    by (simp add: sample_supportedCommands)
  have h2: "\<forall>n\<in>set [''focus'']. \<not> isl (parseCommand ?info (mappedType ?info) n)"
    by (simp add: sample_mappedType sample_focus)
  have h3: "getProperty (program ?info) (mappedType ?info) ''scrollTo''
              = Some (sample_symbol ''scrollTo'')"
    by (simp add: sample_program sample_mappedType sample_found)
  have h4: "resolveDeclaration (program ?info) ''scrollTo'' (getText (typeNode ?info))
              (sample_symbol ''scrollTo'')
            = Inr (Some (hd (the (declarations (sample_symbol ''scrollTo''))), VoidT,
                         pd ''offset'' (Some stringNode) # []))"
    by (simp add: sample_program sample_resolved)
  have h5: "isVoid (program ?info) VoidT"
    by (simp add: sample_program sample_isVoid)
  have h6: "param_type (pd ''offset'' (Some stringNode)) = Some stringNode"
    by (rule param_type_pd)
  have h7: "\<not> isTypeReferenceNode stringNode"
    by (simp add: stringNode_def)
  from non_reference_first_parameter [OF h1 h2 h3 h4 h5 h6 h7] h1 h2 h3 h6 h7
  show ?thesis by (simp add: sample_program sample_mappedType sample_typeText)
qed

text \<open>
  C6. When a reached command has a single declaration that is a method signature or a
  call signature with a non-empty list of type parameters, or a property signature whose
  type exposes exactly one call signature with a non-empty list of type parameters, the
  call fails with the error of lines 25 and 35, "should not be generic", which names the
  command.
\<close>

theorem generic_signature_rejected:
  assumes "supportedCommands info = pre @ commandName # rest"
      and "\<forall>n\<in>set pre. \<not> isl (parseCommand info (mappedType info) n)"
      and "getProperty (program info) (mappedType info) commandName = Some methodSymbol"
      and "declarations methodSymbol = Some [decl]"
      and "(\<exists>ps ty q. decl = MethodSignature (Some tps) ps ty q) \<or>
           (\<exists>ps ty q. decl = CallSignatureDeclaration (Some tps) ps ty q) \<or>
           (\<exists>ty q signature. decl = PropertySignature ty q \<and>
              getCallSignatures (program info) (getTypeFromTypeNode (program info) ty)
                = Some [signature] \<and>
              typeParameters signature = Some tps)"
      and "tps \<noteq> []"
  shows "parseCommands info =
           Inl (Error (''Command '' @ commandName @ '' in type '' @ getText (typeNode info)
                        @ '' should not be generic.''))"
proof -
  have "resolveDeclaration (program info) commandName (getText (typeNode info)) methodSymbol =
           Inl (Error (''Command '' @ commandName @ '' in type '' @ getText (typeNode info)
                        @ '' should not be generic.''))"
    using assms(4,5,6) by (auto simp: resolveDeclaration_def Let_def)
  then have "parseCommand info (mappedType info) commandName =
           Inl (Error (''Command '' @ commandName @ '' in type '' @ getText (typeNode info)
                        @ '' should not be generic.''))"
    using assms(3) by (simp add: parseCommand_def Let_def)
  with assms(1,2) show ?thesis by (rule parseCommands_first_failure)
qed

theorem generic_signature_rejected_witness:
  "supportedCommands (sample_info [''focus'', ''measure'']) = [''focus''] @ ''measure'' # [] \<and>
   \<not> isl (parseCommand (sample_info [''focus'', ''measure'']) CommandsT ''focus'') \<and>
   declarations (sample_symbol ''measure'') =
     Some [MethodSignature (Some [''T'']) [pd ''viewRef'' (Some refNode)] (Some voidNode) None] \<and>
   parseCommands (sample_info [''focus'', ''measure'']) =
     Inl (Error ''Command measure in type MyViewCommands should not be generic.'') \<and>
   supportedCommands (sample_info [''focus'', ''transform'']) = [''focus''] @ ''transform'' # [] \<and>
   declarations (sample_symbol ''transform'') = Some [PropertySignature (Some genericFnNode) None] \<and>
   getCallSignatures sample_checker (getTypeFromTypeNode sample_checker (Some genericFnNode)) =
     Some [\<lparr> typeParameters = Some [''T''], getReturnType = VoidT,
             parameters = [psym ''ref'' (Some refNode)] \<rparr>] \<and>
   parseCommands (sample_info [''focus'', ''transform'']) =
     Inl (Error ''Command transform in type MyViewCommands should not be generic.'')"
proof -
  let ?m = "sample_info [''focus'', ''measure'']"
  let ?p = "sample_info [''focus'', ''transform'']"
  let ?sg = "\<lparr> typeParameters = Some [''T''], getReturnType = VoidT,
               parameters = [psym ''ref'' (Some refNode)] \<rparr>"
  have pre: "\<forall>n\<in>set [''focus''].
               \<not> isl (parseCommand (sample_info names) (mappedType (sample_info names)) n)"
    for names by (simp add: sample_mappedType sample_focus)
  have m1: "supportedCommands ?m = [''focus''] @ ''measure'' # []"
    by (simp add: sample_supportedCommands)
  have m3: "getProperty (program ?m) (mappedType ?m) ''measure'' = Some (sample_symbol ''measure'')"
    by (simp add: sample_program sample_mappedType sample_found)
  have m4: "declarations (sample_symbol ''measure'') =
     Some [MethodSignature (Some [''T'']) [pd ''viewRef'' (Some refNode)] (Some voidNode) None]"
    by (rule sample_declarations)
  have m5: "(\<exists>ps ty q. MethodSignature (Some [''T'']) [pd ''viewRef'' (Some refNode)] (Some voidNode) None
                          = MethodSignature (Some [''T'']) ps ty q) \<or>
            (\<exists>ps ty q. MethodSignature (Some [''T'']) [pd ''viewRef'' (Some refNode)] (Some voidNode) None
                          = CallSignatureDeclaration (Some [''T'']) ps ty q) \<or>
            (\<exists>ty q signature.
                MethodSignature (Some [''T'']) [pd ''viewRef'' (Some refNode)] (Some voidNode) None
                  = PropertySignature ty q \<and>
                getCallSignatures (program ?m) (getTypeFromTypeNode (program ?m) ty) = Some [signature] \<and>
                typeParameters signature = Some [''T''])"
    by simp
  have ne: "[''T''] \<noteq> []" by simp
  note M = generic_signature_rejected [OF m1 pre m3 m4 m5 ne]
  have p1: "supportedCommands ?p = [''focus''] @ ''transform'' # []"
    by (simp add: sample_supportedCommands)
  have p3: "getProperty (program ?p) (mappedType ?p) ''transform'' = Some (sample_symbol ''transform'')"
    by (simp add: sample_program sample_mappedType sample_found)
  have p4: "declarations (sample_symbol ''transform'') = Some [PropertySignature (Some genericFnNode) None]"
    by (rule sample_declarations)
  have sg: "getCallSignatures sample_checker (getTypeFromTypeNode sample_checker (Some genericFnNode))
              = Some [?sg]"
    by (simp add: sample_checker_def sample_resolve_def sample_signatures_def genericFnNode_def)
  have p5: "(\<exists>ps ty q. PropertySignature (Some genericFnNode) None = MethodSignature (Some [''T'']) ps ty q) \<or>
            (\<exists>ps ty q. PropertySignature (Some genericFnNode) None
                          = CallSignatureDeclaration (Some [''T'']) ps ty q) \<or>
            (\<exists>ty q signature.
                PropertySignature (Some genericFnNode) None = PropertySignature ty q \<and>
                getCallSignatures (program ?p) (getTypeFromTypeNode (program ?p) ty) = Some [signature] \<and>
                typeParameters signature = Some [''T''])"
    using sg by (simp add: sample_program)
  note P = generic_signature_rejected [OF p1 pre p3 p4 p5 ne]
  from M P m1 p1 m4 p4 sg pre [of "[''focus'', ''measure'']"]
  show ?thesis by (simp add: sample_mappedType sample_typeText)
qed

text \<open>
  C7. When a reached command has resolved to a declaration and the resolved return type
  is not void-like (whatever the checker answers for the annotation, absent or not), the
  call fails with the error of line 54, "should return void", which names the command and
  the text of the owning type.
\<close>

theorem non_void_return:
  assumes "supportedCommands info = pre @ commandName # rest"
      and "\<forall>n\<in>set pre. \<not> isl (parseCommand info (mappedType info) n)"
      and "getProperty (program info) (mappedType info) commandName = Some methodSymbol"
      and "resolveDeclaration (program info) commandName (getText (typeNode info)) methodSymbol
             = Inr (Some (funcDecl, funcReturnType, funcParameters))"
      and "\<not> isVoid (program info) funcReturnType"
  shows "parseCommands info =
           Inl (Error (''Command '' @ commandName @ '' in type '' @ getText (typeNode info)
                        @ '' should return void.''))"
proof -
  have "parseCommand info (mappedType info) commandName =
           Inl (Error (''Command '' @ commandName @ '' in type '' @ getText (typeNode info)
                        @ '' should return void.''))"
    using assms(3,4,5) by (simp add: parseCommand_def Let_def)
  with assms(1,2) show ?thesis by (rule parseCommands_first_failure)
qed

theorem non_void_return_witness:
  "supportedCommands (sample_info [''blur'', ''getTag'']) = [''blur''] @ ''getTag'' # [] \<and>
   \<not> isl (parseCommand (sample_info [''blur'', ''getTag'']) CommandsT ''blur'') \<and>
   getProperty sample_checker CommandsT ''getTag'' = Some (sample_symbol ''getTag'') \<and>
   \<not> isVoid sample_checker NumberT \<and>
   parseCommands (sample_info [''blur'', ''getTag'']) =
     Inl (Error ''Command getTag in type MyViewCommands should return void.'')"
proof -
  let ?info = "sample_info [''blur'', ''getTag'']"
  have h1: "supportedCommands ?info = [''blur''] @ ''getTag'' # []"
    by (simp add: sample_supportedCommands)
  have h2: "\<forall>n\<in>set [''blur'']. \<not> isl (parseCommand ?info (mappedType ?info) n)"
    by (simp add: sample_mappedType sample_blur)
  have h3: "getProperty (program ?info) (mappedType ?info) ''getTag'' = Some (sample_symbol ''getTag'')"
    by (simp add: sample_program sample_mappedType sample_found)
  have h4: "resolveDeclaration (program ?info) ''getTag'' (getText (typeNode ?info))
              (sample_symbol ''getTag'')
            = Inr (Some (hd (the (declarations (sample_symbol ''getTag''))), NumberT,
                         [pd ''viewRef'' (Some refNode)]))"
    by (simp add: sample_program sample_resolved)
  have h5: "\<not> isVoid (program ?info) NumberT"
    by (simp add: sample_program sample_isVoid)
  from non_void_return [OF h1 h2 h3 h4 h5] h1 h2 h3 h5
  show ?thesis by (simp add: sample_program sample_mappedType sample_typeText)
qed

text \<open>
  C8. For a reached command whose single declaration is a property signature: when the
  type of the property does not expose exactly one call signature (none, several, or no
  list at all), the call fails with the error of line 50, "should be a function"; when
  the member resolves, the type exposes exactly one call signature, the resolved
  declaration is the property signature, the return type is that signature's and the
  parameters are the declarations of that signature's parameter symbols; and when the
  call succeeds, the emitted parameter names are those of that signature's parameters
  after the first.
\<close>

theorem property_call_signature:
  assumes "supportedCommands info = pre @ commandName # rest"
      and "\<forall>n\<in>set pre. \<not> isl (parseCommand info (mappedType info) n)"
      and "getProperty (program info) (mappedType info) commandName = Some methodSymbol"
      and "declarations methodSymbol = Some [PropertySignature ty q]"
  shows "((\<forall>signature. getCallSignatures (program info) (getTypeFromTypeNode (program info) ty)
                          \<noteq> Some [signature]) \<longrightarrow>
            parseCommands info =
              Inl (Error (''Command '' @ commandName @ '' in type '' @ getText (typeNode info)
                           @ '' should be a function.''))) \<and>
         (\<forall>funcDecl funcReturnType funcParameters.
            resolveDeclaration (program info) commandName (getText (typeNode info)) methodSymbol
              = Inr (Some (funcDecl, funcReturnType, funcParameters)) \<longrightarrow>
            (\<exists>signature.
               getCallSignatures (program info) (getTypeFromTypeNode (program info) ty)
                 = Some [signature] \<and>
               funcDecl = PropertySignature ty q \<and>
               funcReturnType = getReturnType signature \<and>
               map declarations (parameters signature) = map (\<lambda>p. Some [Parameter p]) funcParameters)) \<and>
         (\<forall>cs. parseCommands info = Inr cs \<longrightarrow>
            (\<exists>signature funcParameters.
               getCallSignatures (program info) (getTypeFromTypeNode (program info) ty)
                 = Some [signature] \<and>
               isVoid (program info) (getReturnType signature) \<and>
               map declarations (parameters signature) = map (\<lambda>p. Some [Parameter p]) funcParameters \<and>
               map par_name (params (cmd_typeAnnotation (cs ! length pre)))
                 = map param_name (tl funcParameters)))"
proof (intro conjI impI allI)
  assume none: "\<forall>signature. getCallSignatures (program info) (getTypeFromTypeNode (program info) ty)
                          \<noteq> Some [signature]"
  have "resolveDeclaration (program info) commandName (getText (typeNode info)) methodSymbol
          = Inr None"
    using assms(4) none
    by (auto simp: resolveDeclaration_def Let_def split: option.splits list.splits)
  then have "parseCommand info (mappedType info) commandName =
           Inl (Error (''Command '' @ commandName @ '' in type '' @ getText (typeNode info)
                        @ '' should be a function.''))"
    using assms(3) by (simp add: parseCommand_def Let_def)
  with assms(1,2) show "parseCommands info =
              Inl (Error (''Command '' @ commandName @ '' in type '' @ getText (typeNode info)
                           @ '' should be a function.''))"
    by (rule parseCommands_first_failure)
next
  fix funcDecl funcReturnType funcParameters
  assume "resolveDeclaration (program info) commandName (getText (typeNode info)) methodSymbol
              = Inr (Some (funcDecl, funcReturnType, funcParameters))"
  with assms(4) show "\<exists>signature.
               getCallSignatures (program info) (getTypeFromTypeNode (program info) ty)
                 = Some [signature] \<and>
               funcDecl = PropertySignature ty q \<and>
               funcReturnType = getReturnType signature \<and>
               map declarations (parameters signature) = map (\<lambda>p. Some [Parameter p]) funcParameters"
    by (rule resolveDeclaration_property)
next
  fix cs
  assume "parseCommands info = Inr cs"
  then have "parseCommand info (mappedType info) commandName = Inr (cs ! length pre)"
    using assms(1) by (rule parseCommands_Inr_at)
  from parseCommand_Inr_D [OF this] assms(3)
  obtain funcDecl funcReturnType first others ps where
    res: "resolveDeclaration (program info) commandName (getText (typeNode info)) methodSymbol
            = Inr (Some (funcDecl, funcReturnType, first # others))"
    and void: "isVoid (program info) funcReturnType"
    and mp: "mapParams (program info) commandName (getText (typeNode info)) others = Inr ps"
    and c: "cs ! length pre =
              \<lparr> cmd_name = commandName, cmd_optional = (questionToken funcDecl \<noteq> None),
                cmd_typeAnnotation = FunctionTypeAnnotation ps \<rparr>"
    by fastforce
  from resolveDeclaration_property [OF assms(4) res]
  obtain signature where
    sg: "getCallSignatures (program info) (getTypeFromTypeNode (program info) ty) = Some [signature]"
    and rt: "funcReturnType = getReturnType signature"
    and ds: "map declarations (parameters signature) = map (\<lambda>p. Some [Parameter p]) (first # others)"
    by blast
  have "map par_name (params (cmd_typeAnnotation (cs ! length pre)))
          = map param_name (tl (first # others))"
    using c mapParams_Inr_names [OF mp] by simp
  with sg rt ds void
  show "\<exists>signature funcParameters.
               getCallSignatures (program info) (getTypeFromTypeNode (program info) ty)
                 = Some [signature] \<and>
               isVoid (program info) (getReturnType signature) \<and>
               map declarations (parameters signature) = map (\<lambda>p. Some [Parameter p]) funcParameters \<and>
               map par_name (params (cmd_typeAnnotation (cs ! length pre)))
                 = map param_name (tl funcParameters)"
    by blast
qed

theorem property_call_signature_witness:
  "supportedCommands (sample_info [''focus'', ''pick'']) = [''focus''] @ ''pick'' # [] \<and>
   \<not> isl (parseCommand (sample_info [''focus'', ''pick'']) CommandsT ''focus'') \<and>
   declarations (sample_symbol ''pick'') = Some [PropertySignature (Some overloadedFnNode) None] \<and>
   map_option length
     (getCallSignatures sample_checker (getTypeFromTypeNode sample_checker (Some overloadedFnNode)))
     = Some 2 \<and>
   parseCommands (sample_info [''focus'', ''pick'']) =
     Inl (Error ''Command pick in type MyViewCommands should be a function.'') \<and>
   declarations (sample_symbol ''title'') = Some [PropertySignature (Some stringNode) None] \<and>
   getCallSignatures sample_checker (getTypeFromTypeNode sample_checker (Some stringNode)) = Some [] \<and>
   parseCommands (sample_info [''focus'', ''title'']) =
     Inl (Error ''Command title in type MyViewCommands should be a function.'') \<and>
   declarations (sample_symbol ''setColor'') = Some [PropertySignature (Some setColorFnNode) None] \<and>
   parseCommands (sample_info [''focus'', ''setColor'']) =
     Inr [\<lparr> cmd_name = ''focus'', cmd_optional = False,
            cmd_typeAnnotation = FunctionTypeAnnotation
              [\<lparr> par_name = ''durationMs'', par_typeAnnotation = Int32TypeAnnotation \<rparr>] \<rparr>,
          \<lparr> cmd_name = ''setColor'', cmd_optional = False,
            cmd_typeAnnotation = FunctionTypeAnnotation
              [\<lparr> par_name = ''color'', par_typeAnnotation = StringTypeAnnotation \<rparr>,
               \<lparr> par_name = ''animated'', par_typeAnnotation = BooleanTypeAnnotation \<rparr>] \<rparr>] \<and>
   (\<exists>signature.
      getCallSignatures sample_checker (getTypeFromTypeNode sample_checker (Some setColorFnNode))
        = Some [signature])"
proof -
  let ?pick = "sample_info [''focus'', ''pick'']"
  let ?title = "sample_info [''focus'', ''title'']"
  let ?color = "sample_info [''focus'', ''setColor'']"
  have pre: "\<forall>n\<in>set [''focus''].
               \<not> isl (parseCommand (sample_info names) (mappedType (sample_info names)) n)"
    for names by (simp add: sample_mappedType sample_focus)
  have k1: "supportedCommands ?pick = [''focus''] @ ''pick'' # []"
    and t1: "supportedCommands ?title = [''focus''] @ ''title'' # []"
    and c1: "supportedCommands ?color = [''focus''] @ ''setColor'' # []"
    by (simp_all add: sample_supportedCommands)
  have k3: "getProperty (program ?pick) (mappedType ?pick) ''pick'' = Some (sample_symbol ''pick'')"
    and t3: "getProperty (program ?title) (mappedType ?title) ''title'' = Some (sample_symbol ''title'')"
    and c3: "getProperty (program ?color) (mappedType ?color) ''setColor''
               = Some (sample_symbol ''setColor'')"
    by (simp_all add: sample_program sample_mappedType sample_found)
  have ksig: "map_option length
     (getCallSignatures sample_checker (getTypeFromTypeNode sample_checker (Some overloadedFnNode)))
     = Some 2"
    by (simp add: sample_checker_def sample_resolve_def sample_signatures_def overloadedFnNode_def)
  have tsig: "getCallSignatures sample_checker (getTypeFromTypeNode sample_checker (Some stringNode))
                = Some []"
    by (simp add: sample_checker_def sample_resolve_def sample_signatures_def stringNode_def)
  have knone: "\<forall>signature. getCallSignatures (program ?pick)
                   (getTypeFromTypeNode (program ?pick) (Some overloadedFnNode)) \<noteq> Some [signature]"
    using ksig by (auto simp: sample_program)
  have tnone: "\<forall>signature. getCallSignatures (program ?title)
                   (getTypeFromTypeNode (program ?title) (Some stringNode)) \<noteq> Some [signature]"
    using tsig by (simp add: sample_program)
  note K = property_call_signature [OF k1 pre k3 sample_declarations(6),
      THEN conjunct1, THEN mp, OF knone]
  note T = property_call_signature [OF t1 pre t3 sample_declarations(7),
      THEN conjunct1, THEN mp, OF tnone]
  have whole: "parseCommands ?color =
     Inr [\<lparr> cmd_name = ''focus'', cmd_optional = False,
            cmd_typeAnnotation = FunctionTypeAnnotation
              [\<lparr> par_name = ''durationMs'', par_typeAnnotation = Int32TypeAnnotation \<rparr>] \<rparr>,
          \<lparr> cmd_name = ''setColor'', cmd_optional = False,
            cmd_typeAnnotation = FunctionTypeAnnotation
              [\<lparr> par_name = ''color'', par_typeAnnotation = StringTypeAnnotation \<rparr>,
               \<lparr> par_name = ''animated'', par_typeAnnotation = BooleanTypeAnnotation \<rparr>] \<rparr>]"
    by (simp add: parseCommands_def sample_mappedType sample_supportedCommands sample_focus
          sample_setColor)
  note C = property_call_signature [OF c1 pre c3 sample_declarations(4),
      THEN conjunct2, THEN conjunct2, THEN spec, THEN mp, OF whole]
  from C have csig: "\<exists>signature.
      getCallSignatures sample_checker (getTypeFromTypeNode sample_checker (Some setColorFnNode))
        = Some [signature]"
    by (auto simp: sample_program)
  from K T whole csig k1 ksig tsig sample_declarations(4,6,7) pre [of "[''focus'', ''pick'']"]
  show ?thesis by (simp add: sample_mappedType sample_typeText)
qed

text \<open>
  C9. When the call succeeds, the shape emitted for a requested command has
  \<open>optional = True\<close> exactly when the single declaration of its member symbol (the method or
  call signature, or the property signature for a callable property) carries a question
  token; a declaration without one yields \<open>optional = False\<close>.
\<close>

theorem optional_flag:
  assumes "parseCommands info = Inr cs"
      and "supportedCommands info = pre @ commandName # rest"
      and "getProperty (program info) (mappedType info) commandName = Some methodSymbol"
      and "declarations methodSymbol = Some [decl]"
  shows "cmd_optional (cs ! length pre) = (questionToken decl \<noteq> None)"
proof -
  have "parseCommand info (mappedType info) commandName = Inr (cs ! length pre)"
    using assms(1,2) by (rule parseCommands_Inr_at)
  from parseCommand_Inr_D [OF this] assms(3)
  obtain funcDecl funcReturnType funcParameters where
    res: "resolveDeclaration (program info) commandName (getText (typeNode info)) methodSymbol
            = Inr (Some (funcDecl, funcReturnType, funcParameters))"
    and opt: "cmd_optional (cs ! length pre) = (questionToken funcDecl \<noteq> None)"
    by fastforce
  from resolveDeclaration_Some_decl [OF res] assms(4) have "funcDecl = decl" by simp
  with opt show ?thesis by simp
qed

theorem optional_flag_witness:
  "parseCommands (sample_info [''focus'', ''blur'']) =
     Inr [\<lparr> cmd_name = ''focus'', cmd_optional = False,
            cmd_typeAnnotation = FunctionTypeAnnotation
              [\<lparr> par_name = ''durationMs'', par_typeAnnotation = Int32TypeAnnotation \<rparr>] \<rparr>,
          \<lparr> cmd_name = ''blur'', cmd_optional = True,
            cmd_typeAnnotation = FunctionTypeAnnotation [] \<rparr>] \<and>
   declarations (sample_symbol ''focus'') =
     Some [MethodSignature None [pd ''viewRef'' (Some refNode), pd ''durationMs'' (Some int32Node)]
        (Some voidNode) None] \<and>
   declarations (sample_symbol ''blur'') =
     Some [MethodSignature None [pd ''viewRef'' (Some reactRefNode)] (Some voidNode) (Some ())] \<and>
   cmd_optional
     ([\<lparr> cmd_name = ''focus'', cmd_optional = False,
          cmd_typeAnnotation = FunctionTypeAnnotation
            [\<lparr> par_name = ''durationMs'', par_typeAnnotation = Int32TypeAnnotation \<rparr>] \<rparr>,
        \<lparr> cmd_name = ''blur'', cmd_optional = True,
          cmd_typeAnnotation = FunctionTypeAnnotation [] \<rparr>] ! length [''focus''])
     = (questionToken (MethodSignature None [pd ''viewRef'' (Some reactRefNode)] (Some voidNode)
                         (Some ())) \<noteq> None) \<and>
   cmd_optional
     ([\<lparr> cmd_name = ''focus'', cmd_optional = False,
          cmd_typeAnnotation = FunctionTypeAnnotation
            [\<lparr> par_name = ''durationMs'', par_typeAnnotation = Int32TypeAnnotation \<rparr>] \<rparr>,
        \<lparr> cmd_name = ''blur'', cmd_optional = True,
          cmd_typeAnnotation = FunctionTypeAnnotation [] \<rparr>] ! length ([] :: string list))
     = (questionToken (MethodSignature None
                         [pd ''viewRef'' (Some refNode), pd ''durationMs'' (Some int32Node)]
                         (Some voidNode) None) \<noteq> None)"
proof -
  let ?info = "sample_info [''focus'', ''blur'']"
  let ?cs = "[\<lparr> cmd_name = ''focus'', cmd_optional = False,
            cmd_typeAnnotation = FunctionTypeAnnotation
              [\<lparr> par_name = ''durationMs'', par_typeAnnotation = Int32TypeAnnotation \<rparr>] \<rparr>,
          \<lparr> cmd_name = ''blur'', cmd_optional = True,
            cmd_typeAnnotation = FunctionTypeAnnotation [] \<rparr>]"
  have h1: "parseCommands ?info = Inr ?cs"
    by (simp add: parseCommands_def sample_mappedType sample_supportedCommands sample_focus
          sample_blur)
  have b2: "supportedCommands ?info = [''focus''] @ ''blur'' # []"
    and f2: "supportedCommands ?info = [] @ ''focus'' # [''blur'']"
    by (simp_all add: sample_supportedCommands)
  have b3: "getProperty (program ?info) (mappedType ?info) ''blur'' = Some (sample_symbol ''blur'')"
    and f3: "getProperty (program ?info) (mappedType ?info) ''focus'' = Some (sample_symbol ''focus'')"
    by (simp_all add: sample_program sample_mappedType sample_found)
  note B = optional_flag [OF h1 b2 b3 sample_declarations(2)]
  note F = optional_flag [OF h1 f2 f3 sample_declarations(1)]
  from h1 B F sample_declarations(1,2) show ?thesis by blast
qed

text \<open>
  C10. The specification's precondition, an explicit return type annotation on every
  resolved declaration and an explicit type annotation on every parameter, neither
  excludes the runtime fault nor is needed in full. What holds: \<open>parseCommands\<close> returns a
  sequence or raises one of its own errors whenever every symbol whose declarations it
  reads has a declarations array and every parameter of each resolved declaration carries
  a type annotation; the return type annotation plays no part. It ends in the runtime's
  TypeError, which is none of the raised errors, for \<^verbatim>\<open>untyped(viewRef): void\<close>, whose first
  parameter has no annotation (line 61); for \<^verbatim>\<open>setValue(viewRef: Ref<'MyView'>, value): void\<close>,
  whose later parameter has none and resolves to a type of no category (line 88); for a
  member symbol without a declarations array (line 21); and for a callable property whose
  signature has a parameter symbol without one (line 40).
\<close>

theorem faults_without_annotations:
  "(declarationsDefined info \<and> parametersAnnotated info \<longrightarrow>
      parseCommands info \<noteq> Inl TypeError \<and>
      ((\<exists>cs. parseCommands info = Inr cs) \<or> (\<exists>m. parseCommands info = Inl (Error m)))) \<and>
   \<not> parametersAnnotated (sample_info [''untyped'']) \<and>
   parseCommands (sample_info [''untyped'']) = Inl TypeError \<and>
   \<not> parametersAnnotated (sample_info [''setValue'']) \<and>
   parseCommands (sample_info [''setValue'']) = Inl TypeError \<and>
   \<not> declarationsDefined (sample_info [''mapped'']) \<and>
   parseCommands (sample_info [''mapped'']) = Inl TypeError \<and>
   \<not> declarationsDefined (sample_info [''toggle'']) \<and>
   parseCommands (sample_info [''toggle'']) = Inl TypeError"
proof (intro conjI impI)
  assume pre: "declarationsDefined info \<and> parametersAnnotated info"
  show nf: "parseCommands info \<noteq> Inl TypeError"
  proof
    assume "parseCommands info = Inl TypeError"
    then obtain n where n: "n \<in> set (supportedCommands info)"
      and f: "parseCommand info (mappedType info) n = Inl TypeError"
      using parseCommandsLoop_Inl [of info "mappedType info" "supportedCommands info" "[]" TypeError]
      by (auto simp: parseCommands_def)
    have "parseCommand info (mappedType info) n \<noteq> Inl TypeError"
    proof (rule parseCommand_no_fault)
      fix methodSymbol
      assume "getProperty (program info) (mappedType info) n = Some methodSymbol"
      with pre n show "symbolDeclarationsDefined (program info) methodSymbol"
        by (auto simp: declarationsDefined_def list_all_iff)
    next
      fix methodSymbol funcDecl funcReturnType funcParameters
      assume "getProperty (program info) (mappedType info) n = Some methodSymbol"
        and "resolveDeclaration (program info) n (getText (typeNode info)) methodSymbol
               = Inr (Some (funcDecl, funcReturnType, funcParameters))"
      with pre n show "list_all (\<lambda>p. param_type p \<noteq> None) funcParameters"
        by (auto simp: parametersAnnotated_def list_all_iff)
    qed
    with f show False by contradiction
  qed
  show "(\<exists>cs. parseCommands info = Inr cs) \<or> (\<exists>m. parseCommands info = Inl (Error m))"
  proof (cases "parseCommands info")
    case (Inl e)
    with nf show ?thesis by (cases e) auto
  next
    case (Inr cs)
    then show ?thesis by simp
  qed
next
  show "\<not> parametersAnnotated (sample_info [''untyped''])"
    by (simp add: parametersAnnotated_def sample_program sample_mappedType sample_supportedCommands
          sample_found)
       (simp add: resolveDeclaration_def sample_defs)
next
  show "parseCommands (sample_info [''untyped'']) = Inl TypeError"
    by (simp add: parseCommands_def sample_mappedType sample_supportedCommands)
       (simp add: eval_defs)
next
  show "\<not> parametersAnnotated (sample_info [''setValue''])"
    by (simp add: parametersAnnotated_def sample_program sample_mappedType sample_supportedCommands
          sample_found sample_setValue_resolved pd_def)
next
  show "parseCommands (sample_info [''setValue'']) = Inl TypeError"
    by (simp add: parseCommands_def sample_mappedType sample_supportedCommands)
       (simp add: eval_defs)
next
  show "\<not> declarationsDefined (sample_info [''mapped''])"
    by (simp add: declarationsDefined_def symbolDeclarationsDefined_def sample_program
          sample_mappedType sample_supportedCommands sample_found sample_declarations)
next
  show "parseCommands (sample_info [''mapped'']) = Inl TypeError"
    by (simp add: parseCommands_def sample_mappedType sample_supportedCommands)
       (simp add: eval_defs)
next
  show "\<not> declarationsDefined (sample_info [''toggle''])"
    by (simp add: declarationsDefined_def symbolDeclarationsDefined_def sample_program
          sample_mappedType sample_supportedCommands sample_found)
       (simp add: sample_defs)
next
  show "parseCommands (sample_info [''toggle'']) = Inl TypeError"
    by (simp add: parseCommands_def sample_mappedType sample_supportedCommands)
       (simp add: eval_defs)
qed

theorem faults_without_annotations_witness:
  "declarationsDefined (sample_info [''setColor'', ''noReturn'']) \<and>
   parametersAnnotated (sample_info [''setColor'', ''noReturn'']) \<and>
   parseCommands (sample_info [''setColor'', ''noReturn'']) \<noteq> Inl TypeError \<and>
   parseCommands (sample_info [''setColor'', ''noReturn'']) =
     Inl (Error ''Command noReturn in type MyViewCommands should return void.'')"
proof -
  let ?info = "sample_info [''setColor'', ''noReturn'']"
  have dd: "declarationsDefined ?info"
    by (simp add: declarationsDefined_def symbolDeclarationsDefined_def sample_program
          sample_mappedType sample_supportedCommands sample_found)
       (simp add: sample_defs)
  have pa: "parametersAnnotated ?info"
    by (simp add: parametersAnnotated_def sample_program sample_mappedType
          sample_supportedCommands sample_found sample_resolved)
       (simp add: resolveDeclaration_def sample_defs)
  have res: "parseCommands ?info =
     Inl (Error ''Command noReturn in type MyViewCommands should return void.'')"
    by (simp add: parseCommands_def sample_mappedType sample_supportedCommands sample_setColor)
       (simp add: eval_defs)
  from dd pa have "declarationsDefined ?info \<and> parametersAnnotated ?info" by simp
  from faults_without_annotations [of ?info, THEN conjunct1, THEN mp, OF this] dd pa res
  show ?thesis by simp
qed

text \<open>
  The precondition as the specification words it fails in both directions on the sample
  type: with every annotation explicit the call still faults on a member symbol or a
  parameter symbol without a declarations array, and a method written without a return
  type does not fault but raises "should return void".
\<close>

theorem explicit_annotations_counterexample:
  "explicitlyAnnotated (sample_info [''focus'', ''mapped'']) \<and>
   parseCommands (sample_info [''focus'', ''mapped'']) = Inl TypeError \<and>
   explicitlyAnnotated (sample_info [''toggle'']) \<and>
   parseCommands (sample_info [''toggle'']) = Inl TypeError \<and>
   \<not> explicitlyAnnotated (sample_info [''noReturn'']) \<and>
   parseCommands (sample_info [''noReturn'']) =
     Inl (Error ''Command noReturn in type MyViewCommands should return void.'')"
proof (intro conjI)
  show "explicitlyAnnotated (sample_info [''focus'', ''mapped''])"
    by (simp add: explicitlyAnnotated_def sample_program sample_mappedType
          sample_supportedCommands sample_found)
       (simp add: resolveDeclaration_def sample_defs)
  show "parseCommands (sample_info [''focus'', ''mapped'']) = Inl TypeError"
    by (simp add: parseCommands_def sample_mappedType sample_supportedCommands sample_focus)
       (simp add: eval_defs)
  show "explicitlyAnnotated (sample_info [''toggle''])"
    by (simp add: explicitlyAnnotated_def sample_program sample_mappedType
          sample_supportedCommands sample_found)
       (simp add: resolveDeclaration_def sample_defs)
  show "parseCommands (sample_info [''toggle'']) = Inl TypeError"
    by (simp add: parseCommands_def sample_mappedType sample_supportedCommands)
       (simp add: eval_defs)
  show "\<not> explicitlyAnnotated (sample_info [''noReturn''])"
    by (simp add: explicitlyAnnotated_def sample_program sample_mappedType
          sample_supportedCommands sample_found)
       (simp add: resolveDeclaration_def sample_defs)
  show "parseCommands (sample_info [''noReturn'']) =
     Inl (Error ''Command noReturn in type MyViewCommands should return void.'')"
    by (simp add: parseCommands_def sample_mappedType sample_supportedCommands)
       (simp add: eval_defs)
qed

end
